theory Spec2Isabelle
  imports Complex_Main "HOL-Library.Multiset"
begin

section \<open>Numbers and characters\<close>

text \<open>
  Python floats are modelled by rationals: arithmetic is exact, and the only rounding is
  the one the source asks for with \<^verbatim>\<open>round(x, ndigits)\<close>, which rounds to the nearest
  multiple of \<open>10 ^ -ndigits\<close> and resolves a tie towards the even neighbour. The
  representation error of binary floating point and the infinite value, which a price of
  several hundred digits would parse to, are outside the model.
\<close>

definition round_half_even :: "rat \<Rightarrow> int" where
  "round_half_even x =
     (let f = \<lfloor>x\<rfloor>; d = x - of_int f
      in if d < 1 / 2 then f
         else if 1 / 2 < d then f + 1
         else if even f then f else f + 1)"

definition py_round :: "rat \<Rightarrow> nat \<Rightarrow> rat" where
  "py_round x ndigits = of_int (round_half_even (x * 10 ^ ndigits)) / 10 ^ ndigits"

text \<open>
  A Python \<^verbatim>\<open>str\<close> is modelled as a \<open>string\<close> whose characters are the code points
  \<open>0 .. 255\<close>. The classes below are the ones Python's \<^verbatim>\<open>re\<close> and \<^verbatim>\<open>str\<close> use on
  that range: \<^verbatim>\<open>\s\<close> and \<^verbatim>\<open>str.isspace\<close>, \<^verbatim>\<open>\d\<close>, \<^verbatim>\<open>\w\<close>, \<^verbatim>\<open>[a-z]\<close> and
  \<^verbatim>\<open>str.lower\<close>.
\<close>

definition code :: "char \<Rightarrow> nat" where
  "code c = of_char c"

definition is_space :: "char \<Rightarrow> bool" where
  "is_space c = (let n = code c in (9 \<le> n \<and> n \<le> 13) \<or> (28 \<le> n \<and> n \<le> 32) \<or> n = 133 \<or> n = 160)"

definition is_digit :: "char \<Rightarrow> bool" where
  "is_digit c = (let n = code c in 48 \<le> n \<and> n \<le> 57)"

definition is_az :: "char \<Rightarrow> bool" where
  "is_az c = (let n = code c in 97 \<le> n \<and> n \<le> 122)"

definition is_word :: "char \<Rightarrow> bool" where
  "is_word c =
     (let n = code c
      in (48 \<le> n \<and> n \<le> 57) \<or> (65 \<le> n \<and> n \<le> 90) \<or> n = 95 \<or> (97 \<le> n \<and> n \<le> 122)
         \<or> n = 170 \<or> n = 178 \<or> n = 179 \<or> n = 181 \<or> n = 185 \<or> n = 186
         \<or> (188 \<le> n \<and> n \<le> 190) \<or> (192 \<le> n \<and> n \<le> 214) \<or> (216 \<le> n \<and> n \<le> 246)
         \<or> 248 \<le> n)"

definition lower :: "char \<Rightarrow> char" where
  "lower c =
     (let n = code c
      in if (65 \<le> n \<and> n \<le> 90) \<or> (192 \<le> n \<and> n \<le> 222 \<and> n \<noteq> 215) then char_of (n + 32) else c)"

definition strip :: "string \<Rightarrow> string" where
  "strip s = rev (dropWhile is_space (rev (dropWhile is_space s)))"

section \<open>Sentiment scorer (sentiment.py)\<close>

definition POSITIVE_SIGNALS :: "(string \<times> int) list" where
  "POSITIVE_SIGNALS =
    [(''invest'', 2), (''excited'', 2), (''compelling'', 2), (''strong'', 2),
     (''excellent'', 2), (''impressive'', 2), (''outstanding'', 2), (''love'', 2),
     (''definitely'', 2), (''absolutely'', 2), (''confident'', 2),
     (''interested'', 1), (''good'', 1), (''promising'', 1), (''potential'', 1),
     (''like'', 1), (''positive'', 1), (''solid'', 1), (''great'', 1),
     (''prefer'', 1), (''agree'', 1), (''recommend'', 1), (''support'', 1),
     (''valuable'', 1), (''useful'', 1), (''important'', 1), (''beneficial'', 1),
     (''opportunity'', 1), (''innovative'', 1), (''growth'', 1), (''traction'', 1),
     (''appealing'', 1), (''reasonable'', 1), (''fair'', 1), (''willing'', 1),
     (''upgrade'', 1), (''subscribe'', 1), (''adopt'', 1)]"

definition NEGATIVE_SIGNALS :: "(string \<times> int) list" where
  "NEGATIVE_SIGNALS =
    [(''pass'', 2), (''reject'', 2), (''terrible'', 2), (''awful'', 2),
     (''never'', 2), (''unacceptable'', 2), (''dealbreaker'', 2), (''overpriced'', 2),
     (''churn'', 2), (''cancel'', 2), (''leave'', 2),
     (''concern'', 1), (''risk'', 1), (''worry'', 1), (''doubt'', 1),
     (''expensive'', 1), (''unclear'', 1), (''weak'', 1), (''problem'', 1),
     (''difficult'', 1), (''challenge'', 1), (''issue'', 1), (''missing'', 1),
     (''lack'', 1), (''insufficient'', 1), (''unlikely'', 1), (''hesitant'', 1),
     (''skeptical'', 1), (''cautious'', 1), (''limited'', 1), (''concerned'', 1),
     (''competitive'', 1), (''crowded'', 1), (''saturated'', 1), (''premature'', 1),
     (''confused'', 1), (''frustrated'', 1), (''disappointed'', 1)]"

text \<open>
  \<^verbatim>\<open>re.findall(r"\b[a-z]+\b", s)\<close>. A word boundary lies between two neighbouring
  positions of which exactly one holds a \<^verbatim>\<open>\w\<close> character; the positions before the
  first and after the last character hold none. At a start position the engine takes the
  longest run of \<^verbatim>\<open>[a-z]\<close> and gives characters back one at a time until the closing
  \<^verbatim>\<open>\b\<close> holds. After a match the scan resumes behind it, otherwise one character
  further.
\<close>

definition word_boundary :: "char option \<Rightarrow> char option \<Rightarrow> bool" where
  "word_boundary p c =
     ((case p of None \<Rightarrow> False | Some a \<Rightarrow> is_word a) \<noteq> (case c of None \<Rightarrow> False | Some b \<Rightarrow> is_word b))"

definition head :: "string \<Rightarrow> char option" where
  "head s = (case s of [] \<Rightarrow> None | c # _ \<Rightarrow> Some c)"

definition greedy_prefixes :: "(char \<Rightarrow> bool) \<Rightarrow> string \<Rightarrow> string list" where
  "greedy_prefixes P s = map (\<lambda>k. take k s) (rev [1 ..< Suc (length (takeWhile P s))])"

definition match_word :: "char option \<Rightarrow> string \<Rightarrow> string option" where
  "match_word prev s =
     (if word_boundary prev (head s)
      then find (\<lambda>w. word_boundary (Some (last w)) (head (drop (length w) s))) (greedy_prefixes is_az s)
      else None)"

function findall_words :: "char option \<Rightarrow> string \<Rightarrow> string list" where
  "findall_words prev [] = []"
| "findall_words prev (c # cs) =
     (case match_word prev (c # cs) of
        Some w \<Rightarrow> w # findall_words (Some (last w)) (drop (length w) (c # cs))
      | None \<Rightarrow> findall_words (Some c) cs)"
  by pat_completeness auto
termination
proof (relation "measure (\<lambda>(prev, s). length s)")
  fix prev :: "char option" and c :: char and cs w :: string
  assume m: "match_word prev (c # cs) = Some w"
  have in_set: "find P xs = Some x \<Longrightarrow> x \<in> set xs" for P and xs :: "string list" and x
    by (induction xs) (auto split: if_splits)
  from m have "w \<in> set (greedy_prefixes is_az (c # cs))"
    by (auto simp: match_word_def split: if_splits dest: in_set)
  then obtain k where "w = take k (c # cs)" "1 \<le> k"
    by (auto simp: greedy_prefixes_def)
  then have "0 < length w"
    by (cases k) auto
  then show "((Some (last w), drop (length w) (c # cs)), prev, c # cs)
               \<in> measure (\<lambda>(prev, s). length s)"
    by simp
qed simp_all

text \<open>The scoring loop over the words, with its two accumulators.\<close>

fun score_words :: "string list \<Rightarrow> int \<times> int \<Rightarrow> int \<times> int" where
  "score_words [] acc = acc"
| "score_words (word # ws) (positive_score, negative_score) =
     score_words ws
       ((case map_of POSITIVE_SIGNALS word of Some k \<Rightarrow> positive_score + k | None \<Rightarrow> positive_score),
        (case map_of NEGATIVE_SIGNALS word of Some k \<Rightarrow> negative_score + k | None \<Rightarrow> negative_score))"

definition analyze_sentiment :: "string \<Rightarrow> rat" where
  "analyze_sentiment text =
     (if text = [] \<or> strip text = [] then 0
      else
        let words = findall_words None (map lower text);
            (positive_score, negative_score) = score_words words (0, 0);
            total = positive_score + negative_score
        in if total = 0 then 0
           else
             let raw_score = of_int (positive_score - negative_score) / of_int total
             in max (- 1) (min 1 (py_round raw_score 2)))"

section \<open>Price-sensitivity parser (van_westendorp.py)\<close>

datatype py_error = ValueError | IndexError | ZeroDivisionError

text \<open>
  The four patterns are searched with \<^verbatim>\<open>re.IGNORECASE\<close>. Each is a label followed by the
  same tail \<^verbatim>\<open>\s*:\s*\$?\s*([\d,]+(?:\.\d{1,2})?)\<close>. In the tail every greedy item is
  followed by an item that accepts none of the characters the greedy one consumes, so the
  greedy choice is the only one that can succeed and a matcher without backtracking
  returns what the engine returns.
\<close>

fun lit_ci :: "string \<Rightarrow> string \<Rightarrow> string option" where
  \<comment> \<open>a literal under \<^verbatim>\<open>re.IGNORECASE\<close>: the pattern's letters, kept in lower case, are
      compared with the lower-cased characters of the text; the result is the rest\<close>
  "lit_ci [] s = Some s"
| "lit_ci (p # ps) [] = None"
| "lit_ci (p # ps) (c # cs) = (if lower c = p then lit_ci ps cs else None)"

definition is_sep :: "char \<Rightarrow> bool" where
  \<comment> \<open>\<^verbatim>\<open>[_\s]\<close>\<close>
  "is_sep c = (c = CHR ''_'' \<or> is_space c)"

definition is_num_char :: "char \<Rightarrow> bool" where
  \<comment> \<open>\<^verbatim>\<open>[\d,]\<close>\<close>
  "is_num_char c = (is_digit c \<or> c = CHR '','')"

definition fraction_part :: "string \<Rightarrow> string" where
  \<comment> \<open>\<^verbatim>\<open>(?:\.\d{1,2})?\<close>: the text it consumes\<close>
  "fraction_part s =
     (case s of
        [] \<Rightarrow> []
      | c # r \<Rightarrow>
          (let ds = take 2 (takeWhile is_digit r)
           in if c = CHR ''.'' \<and> ds \<noteq> [] then c # ds else []))"

definition number_group :: "string \<Rightarrow> string option" where
  \<comment> \<open>\<^verbatim>\<open>([\d,]+(?:\.\d{1,2})?)\<close>: the text of group 1\<close>
  "number_group s =
     (let ip = takeWhile is_num_char s
      in if ip = [] then None else Some (ip @ fraction_part (dropWhile is_num_char s)))"

definition label_tail :: "string \<Rightarrow> string option" where
  \<comment> \<open>\<^verbatim>\<open>\s*:\s*\$?\s*(...)\<close>\<close>
  "label_tail s =
     (case dropWhile is_space s of
        [] \<Rightarrow> None
      | c # s2 \<Rightarrow>
          if c = CHR '':'' then
            (let s3 = dropWhile is_space s2;
                 s4 = (case s3 of [] \<Rightarrow> s3 | d # r \<Rightarrow> if d = CHR ''$'' then r else s3)
             in number_group (dropWhile is_space s4))
          else None)"

definition too_prefix :: "string \<Rightarrow> string option" where
  \<comment> \<open>\<^verbatim>\<open>TOO[_\s]\<close>\<close>
  "too_prefix s =
     (case lit_ci ''too'' s of
        None \<Rightarrow> None
      | Some [] \<Rightarrow> None
      | Some (c # r) \<Rightarrow> if is_sep c then Some r else None)"

definition labelled :: "string \<Rightarrow> string \<Rightarrow> string option" where
  "labelled label s = (case lit_ci label s of None \<Rightarrow> None | Some r \<Rightarrow> label_tail r)"

text \<open>
  A pattern is a function of the text before the start position (which only the
  lookbehind reads) and the text from it on; it returns group 1.
\<close>

type_synonym pattern = "string \<Rightarrow> string \<Rightarrow> string option"

definition pat_too_expensive :: pattern where
  "pat_too_expensive pre s =
     (case too_prefix s of None \<Rightarrow> None | Some r \<Rightarrow> labelled ''expensive'' r)"

definition lookbehind_too :: "string \<Rightarrow> bool" where
  \<comment> \<open>\<^verbatim>\<open>TOO[_\s]\<close> ends at the current position: the four characters before it match\<close>
  "lookbehind_too pre =
     (4 \<le> length pre \<and> too_prefix (drop (length pre - 4) pre) = Some [])"

definition pat_expensive :: pattern where
  "pat_expensive pre s = (if lookbehind_too pre then None else labelled ''expensive'' s)"

definition pat_bargain :: pattern where
  "pat_bargain pre s = labelled ''bargain'' s"

definition pat_too_cheap :: pattern where
  "pat_too_cheap pre s =
     (case too_prefix s of None \<Rightarrow> None | Some r \<Rightarrow> labelled ''cheap'' r)"

text \<open>\<^verbatim>\<open>re.search\<close>: the match at the leftmost start position, as (position, group 1).\<close>

fun search_from :: "pattern \<Rightarrow> string \<Rightarrow> string \<Rightarrow> (nat \<times> string) option" where
  "search_from pat pre [] =
     (case pat pre [] of Some g \<Rightarrow> Some (length pre, g) | None \<Rightarrow> None)"
| "search_from pat pre (c # cs) =
     (case pat pre (c # cs) of
        Some g \<Rightarrow> Some (length pre, g)
      | None \<Rightarrow> search_from pat (pre @ [c]) cs)"

definition re_search :: "pattern \<Rightarrow> string \<Rightarrow> (nat \<times> string) option" where
  "re_search pat text = search_from pat [] text"

text \<open>
  \<^verbatim>\<open>float(value_str)\<close> on the strings that can reach it here, which consist of digits
  and at most one point: a \<^verbatim>\<open>ValueError\<close> unless there is at least one digit.
\<close>

fun digits_value :: "string \<Rightarrow> nat \<Rightarrow> nat" where
  "digits_value [] acc = acc"
| "digits_value (c # cs) acc = digits_value cs (10 * acc + (code c - 48))"

definition py_float :: "string \<Rightarrow> py_error + rat" where
  "py_float s =
     (let ip = takeWhile is_digit s
      in case dropWhile is_digit s of
           [] \<Rightarrow> if ip = [] then Inl ValueError else Inr (of_nat (digits_value ip 0))
         | c # fs \<Rightarrow>
             if c = CHR ''.'' \<and> list_all is_digit fs \<and> (ip \<noteq> [] \<or> fs \<noteq> [])
             then Inr (of_nat (digits_value ip 0) + of_nat (digits_value fs 0) / 10 ^ length fs)
             else Inl ValueError)"

record prices =
  too_expensive :: rat
  expensive :: rat
  bargain :: rat
  too_cheap :: rat

definition remove_commas :: "string \<Rightarrow> string" where
  \<comment> \<open>\<^verbatim>\<open>match.group(1).replace(",", "")\<close>\<close>
  "remove_commas g = filter (\<lambda>c. c \<noteq> CHR '','') g"

definition price_of :: "pattern \<Rightarrow> string \<Rightarrow> rat option" where
  \<comment> \<open>one round of the loop over the patterns: \<open>None\<close> is the early \<^verbatim>\<open>return None\<close>\<close>
  "price_of pat text =
     (case re_search pat text of
        None \<Rightarrow> None
      | Some (i, g) \<Rightarrow>
          (case py_float (remove_commas g) of
             Inl e \<Rightarrow> None
           | Inr v \<Rightarrow> Some v))"

definition patterns :: "pattern list" where
  \<comment> \<open>the patterns in the order of the dict: too_expensive, expensive, bargain, too_cheap\<close>
  "patterns = [pat_too_expensive, pat_expensive, pat_bargain, pat_too_cheap]"

text \<open>
  The loop over the four patterns, one round after the other. The check of the order of
  the four values that follows the loop in the source has an empty body and is left out.
\<close>

definition parse_price_points :: "string option \<Rightarrow> prices option" where
  "parse_price_points text =
     (case text of
        None \<Rightarrow> None
      | Some t \<Rightarrow>
          if t = [] then None
          else
            (case price_of pat_too_expensive t of
               None \<Rightarrow> None
             | Some te \<Rightarrow>
            (case price_of pat_expensive t of
               None \<Rightarrow> None
             | Some e \<Rightarrow>
            (case price_of pat_bargain t of
               None \<Rightarrow> None
             | Some b \<Rightarrow>
            (case price_of pat_too_cheap t of
               None \<Rightarrow> None
             | Some tc \<Rightarrow>
                 Some \<lparr>too_expensive = te, expensive = e, bargain = b, too_cheap = tc\<rparr>)))))"

section \<open>Intersection engine (van_westendorp.py)\<close>

record cum_point =
  price :: rat
  cum_too_cheap :: rat
  cum_bargain :: rat
  cum_expensive :: rat
  cum_too_expensive :: rat

datatype curve = TooCheap | Bargain | Expensive | TooExpensive

fun curve_at :: "cum_point \<Rightarrow> curve \<Rightarrow> rat" where
  "curve_at c TooCheap = cum_too_cheap c"
| "curve_at c Bargain = cum_bargain c"
| "curve_at c Expensive = cum_expensive c"
| "curve_at c TooExpensive = cum_too_expensive c"

record price_range =
  low :: "rat option"
  high :: "rat option"

record intersections =
  optimal_price_point :: "rat option"
  indifference_price_point :: "rat option"
  point_of_marginal_cheapness :: "rat option"
  point_of_marginal_expensiveness :: "rat option"
  acceptable_price_range :: price_range
  cumulative_data :: "cum_point list"

record arch_points =
  opp :: "rat option"
  ipp :: "rat option"
  pmc :: "rat option"
  pme :: "rat option"

record vw_result = intersections +
  by_archetype :: "(string option \<times> arch_points) list"

definition values_of :: "prices \<Rightarrow> rat list" where
  \<comment> \<open>\<^verbatim>\<open>p.values()\<close>, in the order the keys were inserted\<close>
  "values_of p = [too_expensive p, expensive p, bargain p, too_cheap p]"

definition price_axis :: "prices list \<Rightarrow> rat list" where
  \<comment> \<open>\<^verbatim>\<open>sorted(all_values)\<close> of the set of all values\<close>
  "price_axis price_data = sort (remdups (concat (map values_of price_data)))"

definition count_if :: "(prices \<Rightarrow> bool) \<Rightarrow> prices list \<Rightarrow> rat" where
  \<comment> \<open>\<^verbatim>\<open>sum(1 for p in price_data if ...)\<close>\<close>
  "count_if P price_data = of_nat (length (filter P price_data))"

definition py_div :: "rat \<Rightarrow> nat \<Rightarrow> py_error + rat" where
  "py_div a n = (if n = 0 then Inl ZeroDivisionError else Inr (a / of_nat n))"

definition fractions_at :: "prices list \<Rightarrow> nat \<Rightarrow> rat \<Rightarrow> py_error + cum_point" where
  \<comment> \<open>the four fractions at one price of the axis, before they are rounded\<close>
  "fractions_at price_data n p =
     (case py_div (count_if (\<lambda>q. p \<le> too_cheap q) price_data) n of
        Inl e \<Rightarrow> Inl e
      | Inr too_cheap_cum \<Rightarrow>
     (case py_div (count_if (\<lambda>q. p \<le> bargain q) price_data) n of
        Inl e \<Rightarrow> Inl e
      | Inr bargain_cum \<Rightarrow>
     (case py_div (count_if (\<lambda>q. expensive q \<le> p) price_data) n of
        Inl e \<Rightarrow> Inl e
      | Inr expensive_cum \<Rightarrow>
     (case py_div (count_if (\<lambda>q. too_expensive q \<le> p) price_data) n of
        Inl e \<Rightarrow> Inl e
      | Inr too_expensive_cum \<Rightarrow>
          Inr \<lparr>price = p, cum_too_cheap = too_cheap_cum, cum_bargain = bargain_cum,
               cum_expensive = expensive_cum, cum_too_expensive = too_expensive_cum\<rparr>))))"

definition round_point :: "cum_point \<Rightarrow> cum_point" where
  "round_point c =
     \<lparr>price = price c,
      cum_too_cheap = py_round (cum_too_cheap c) 4,
      cum_bargain = py_round (cum_bargain c) 4,
      cum_expensive = py_round (cum_expensive c) 4,
      cum_too_expensive = py_round (cum_too_expensive c) 4\<rparr>"

fun build_cumulative :: "prices list \<Rightarrow> nat \<Rightarrow> rat list \<Rightarrow> py_error + cum_point list" where
  "build_cumulative price_data n [] = Inr []"
| "build_cumulative price_data n (p # ps) =
     (case fractions_at price_data n p of
        Inl e \<Rightarrow> Inl e
      | Inr raw \<Rightarrow>
          (case build_cumulative price_data n ps of
             Inl e \<Rightarrow> Inl e
           | Inr rest \<Rightarrow> Inr (round_point raw # rest)))"

definition eps :: rat where
  "eps = 1 / 10 ^ 10"

text \<open>
  The scan of \<^verbatim>\<open>_find_intersection\<close>: the first two equations are the loop over
  \<^verbatim>\<open>range(len(cumulative) - 1)\<close> and the check of the last point that follows it.
\<close>

fun find_intersection :: "cum_point list \<Rightarrow> curve \<Rightarrow> curve \<Rightarrow> rat option" where
  "find_intersection [] curve_a curve_b = None"
| "find_intersection [c] curve_a curve_b =
     (if \<bar>curve_at c curve_a - curve_at c curve_b\<bar> < eps then Some (py_round (price c) 2) else None)"
| "find_intersection (c1 # c2 # rest) curve_a curve_b =
     (let a1 = curve_at c1 curve_a; b1 = curve_at c1 curve_b;
          a2 = curve_at c2 curve_a; b2 = curve_at c2 curve_b;
          diff1 = a1 - b1; diff2 = a2 - b2
      in if diff1 * diff2 < 0 then
           (let p1 = price c1; p2 = price c2;
                denom = (a2 - a1) - (b2 - b1)
            in if \<bar>denom\<bar> < eps then Some (py_round ((p1 + p2) / 2) 2)
               else Some (py_round (p1 + ((b1 - a1) / denom) * (p2 - p1)) 2))
         else if \<bar>diff1\<bar> < eps then Some (py_round (price c1) 2)
         else find_intersection (c2 # rest) curve_a curve_b)"

definition item :: "'a list \<Rightarrow> int \<Rightarrow> py_error + 'a" where
  \<comment> \<open>\<^verbatim>\<open>xs[i]\<close>; an index below zero counts back from the end of the list\<close>
  "item xs i =
     (if i < - int (length xs) \<or> int (length xs) \<le> i then Inl IndexError
      else Inr (xs ! nat (if i < 0 then i + int (length xs) else i)))"

definition calculate_intersections :: "prices list \<Rightarrow> py_error + intersections" where
  "calculate_intersections price_data =
     (let price_points = price_axis price_data;
          n = length price_data
      in case build_cumulative price_data n price_points of
           Inl e \<Rightarrow> Inl e
         | Inr cumulative \<Rightarrow>
             (let opp' = find_intersection cumulative TooExpensive TooCheap;
                  ipp' = find_intersection cumulative Expensive Bargain;
                  pmc' = find_intersection cumulative TooCheap Expensive;
                  pme' = find_intersection cumulative TooExpensive Bargain
              in case (case pmc' of Some v \<Rightarrow> Inr v | None \<Rightarrow> item price_points 0) of
                   Inl e \<Rightarrow> Inl e
                 | Inr low' \<Rightarrow>
                     (case (case pme' of Some v \<Rightarrow> Inr v | None \<Rightarrow> item price_points (- 1)) of
                        Inl e \<Rightarrow> Inl e
                      | Inr high' \<Rightarrow>
                          Inr \<lparr>optimal_price_point = opp',
                               indifference_price_point = ipp',
                               point_of_marginal_cheapness = pmc',
                               point_of_marginal_expensiveness = pme',
                               acceptable_price_range =
                                 \<lparr>low = Some (py_round low' 2), high = Some (py_round high' 2)\<rparr>,
                               cumulative_data = cumulative\<rparr>)))"

definition empty_result :: vw_result where
  "empty_result =
     \<lparr>optimal_price_point = None,
      indifference_price_point = None,
      point_of_marginal_cheapness = None,
      point_of_marginal_expensiveness = None,
      acceptable_price_range = \<lparr>low = None, high = None\<rparr>,
      cumulative_data = [],
      by_archetype = []\<rparr>"

text \<open>
  A persona result is a dict from keys to text or null; a key may be missing.
  \<^verbatim>\<open>r.get(k, default)\<close> is \<open>get r k dflt\<close>, with \<open>None\<close> for Python's \<^verbatim>\<open>None\<close>.
\<close>

type_synonym result_dict = "string \<rightharpoonup> string option"

definition get :: "result_dict \<Rightarrow> string \<Rightarrow> string option \<Rightarrow> string option" where
  "get r k dflt = (case r k of None \<Rightarrow> dflt | Some v \<Rightarrow> v)"

text \<open>Dicts that are iterated keep their insertion order: association lists.\<close>

fun append_to :: "'k \<Rightarrow> 'v \<Rightarrow> ('k \<times> 'v list) list \<Rightarrow> ('k \<times> 'v list) list" where
  \<comment> \<open>\<^verbatim>\<open>if k not in d: d[k] = []\<close> and then \<^verbatim>\<open>d[k].append(v)\<close>\<close>
  "append_to k v [] = [(k, [v])]"
| "append_to k v ((k', vs) # d) =
     (if k = k' then (k', vs @ [v]) # d else (k', vs) # append_to k v d)"

fun assign :: "'k \<Rightarrow> 'v \<Rightarrow> ('k \<times> 'v) list \<Rightarrow> ('k \<times> 'v) list" where
  \<comment> \<open>\<^verbatim>\<open>d[k] = v\<close>\<close>
  "assign k v [] = [(k, v)]"
| "assign k v ((k', v') # d) = (if k = k' then (k', v) # d else (k', v') # assign k v d)"

fun collect_prices ::
  "result_dict list \<Rightarrow> prices list \<times> (string option \<times> prices list) list
     \<Rightarrow> prices list \<times> (string option \<times> prices list) list" where
  "collect_prices [] acc = acc"
| "collect_prices (r # rs) (all_prices, by_arch) =
     (if get r ''error'' None \<noteq> None then collect_prices rs (all_prices, by_arch)
      else
        (case parse_price_points (get r ''response'' (Some [])) of
           None \<Rightarrow> collect_prices rs (all_prices, by_arch)
         | Some prices \<Rightarrow>
             collect_prices rs
               (all_prices @ [prices],
                append_to (get r ''archetype_name'' (Some ''unknown'')) prices by_arch)))"

fun archetype_loop ::
  "(string option \<times> prices list) list \<Rightarrow> (string option \<times> arch_points) list
     \<Rightarrow> py_error + (string option \<times> arch_points) list" where
  "archetype_loop [] archetype_results = Inr archetype_results"
| "archetype_loop ((arch, arch_prices) # rest) archetype_results =
     (if 2 \<le> length arch_prices then
        (case calculate_intersections arch_prices of
           Inl e \<Rightarrow> Inl e
         | Inr arch_intersections \<Rightarrow>
             archetype_loop rest
               (assign arch
                  \<lparr>opp = optimal_price_point arch_intersections,
                   ipp = indifference_price_point arch_intersections,
                   pmc = point_of_marginal_cheapness arch_intersections,
                   pme = point_of_marginal_expensiveness arch_intersections\<rparr>
                  archetype_results))
      else archetype_loop rest archetype_results)"

definition calculate_van_westendorp :: "result_dict list \<Rightarrow> py_error + vw_result" where
  "calculate_van_westendorp results =
     (let (all_prices, by_arch) = collect_prices results ([], [])
      in if length all_prices < 2 then Inr empty_result
         else
           (case calculate_intersections all_prices of
              Inl e \<Rightarrow> Inl e
            | Inr overall \<Rightarrow>
                (case archetype_loop by_arch [] of
                   Inl e \<Rightarrow> Inl e
                 | Inr archetype_results \<Rightarrow>
                     Inr (intersections.extend overall (vw_result.fields archetype_results)))))"

section \<open>Fan-out task (experiment_runner.py)\<close>

text \<open>
  A persona is a dict; a field is \<open>None\<close> when its key is missing. The beliefs are a
  text or a list of texts.
\<close>

datatype beliefs = Text string | Items "string list"

record persona =
  p_id :: "string option"
  p_name :: "string option"
  p_role :: "string option"
  p_company :: "string option"
  p_background :: "string option"
  p_beliefs :: "beliefs option"
  p_decision_style :: "string option"
  p_archetype_id :: "string option"
  p_archetype_name :: "string option"






text \<open>
  The client is external: a function from the request to what the call raises or
  returns. A returned message holds content blocks, of which only a text block has the
  attribute \<^verbatim>\<open>text\<close>, and the token usage.
\<close>

record token_usage =
  input_tokens :: int
  output_tokens :: int





record exec_result =
  persona_id :: string
  persona_name :: string
  archetype_id :: string
  archetype_name :: string
  response :: "string option"
  sentiment :: rat
  tokens :: token_usage
  model :: string
  task_elapsed_seconds :: rat
  error :: "string option"






section \<open>Aggregator (app.py, \<^verbatim>\<open>stream_results\<close>)\<close>

record metrics =
  total_personas :: nat
  successful_responses :: nat
  failed_responses :: nat
  avg_sentiment :: rat
  archetype_sentiments :: "(string \<times> rat) list"
  total_tokens :: token_usage
  elapsed_seconds :: rat

fun add_tokens :: "exec_result list \<Rightarrow> token_usage \<Rightarrow> token_usage" where
  \<comment> \<open>the running totals of the loop that receives the results\<close>
  "add_tokens [] running = running"
| "add_tokens (r # rs) running =
     add_tokens rs
       \<lparr>input_tokens = input_tokens running + input_tokens (tokens r),
        output_tokens = output_tokens running + output_tokens (tokens r)\<rparr>"

fun group_sentiments :: "exec_result list \<Rightarrow> (string \<times> rat list) list \<Rightarrow> (string \<times> rat list) list" where
  "group_sentiments [] by_arch = by_arch"
| "group_sentiments (r # rs) by_arch =
     group_sentiments rs (append_to (archetype_name r) (sentiment r) by_arch)"

definition mean3 :: "rat list \<Rightarrow> py_error + rat" where
  \<comment> \<open>\<^verbatim>\<open>round(sum(scores) / len(scores), 3)\<close>\<close>
  "mean3 scores =
     (case py_div (sum_list scores) (length scores) of Inl e \<Rightarrow> Inl e | Inr m \<Rightarrow> Inr (py_round m 3))"

fun archetype_means :: "(string \<times> rat list) list \<Rightarrow> py_error + (string \<times> rat) list" where
  "archetype_means [] = Inr []"
| "archetype_means ((arch, scores) # rest) =
     (case mean3 scores of
        Inl e \<Rightarrow> Inl e
      | Inr m \<Rightarrow>
          (case archetype_means rest of Inl e \<Rightarrow> Inl e | Inr ms \<Rightarrow> Inr ((arch, m) # ms)))"

definition compute_metrics ::
  "persona list \<Rightarrow> exec_result list \<Rightarrow> rat \<Rightarrow> rat \<Rightarrow> py_error + metrics" where
  "compute_metrics personas results start_time end_time =
     (let tokens_total = add_tokens results \<lparr>input_tokens = 0, output_tokens = 0\<rparr>;
          elapsed = py_round (end_time - start_time) 2;
          successful = filter (\<lambda>r. error r = None) results;
          failed = filter (\<lambda>r. error r \<noteq> None) results;
          sentiments = map sentiment successful
      in case (if sentiments \<noteq> [] then mean3 sentiments else Inr 0) of
           Inl e \<Rightarrow> Inl e
         | Inr avg \<Rightarrow>
             (case archetype_means (group_sentiments successful []) of
                Inl e \<Rightarrow> Inl e
              | Inr arch_sentiments \<Rightarrow>
                  Inr \<lparr>total_personas = length personas,
                       successful_responses = length successful,
                       failed_responses = length failed,
                       avg_sentiment = avg,
                       archetype_sentiments = arch_sentiments,
                       total_tokens = tokens_total,
                       elapsed_seconds = elapsed\<rparr>))"

section \<open>Notions the properties are stated with\<close>

definition positive_weight :: "string \<Rightarrow> int" where
  \<comment> \<open>the weight of a word as a positive signal, 0 when it is none\<close>
  "positive_weight w = (case map_of POSITIVE_SIGNALS w of Some k \<Rightarrow> k | None \<Rightarrow> 0)"

definition negative_weight :: "string \<Rightarrow> int" where
  "negative_weight w = (case map_of NEGATIVE_SIGNALS w of Some k \<Rightarrow> k | None \<Rightarrow> 0)"

definition pos_sum :: "string \<Rightarrow> int" where
  \<comment> \<open>the sum of the positive weights matched in a text\<close>
  "pos_sum text = sum_list (map positive_weight (findall_words None (map lower text)))"

definition neg_sum :: "string \<Rightarrow> int" where
  "neg_sum text = sum_list (map negative_weight (findall_words None (map lower text)))"

function runs :: "(char \<Rightarrow> bool) \<Rightarrow> string \<Rightarrow> string list" where
  \<comment> \<open>the maximal runs of characters of a class; every other character separates\<close>
  "runs P [] = []"
| "runs P (c # cs) =
     (if P c then takeWhile P (c # cs) # runs P (dropWhile P cs) else runs P cs)"
  by pat_completeness auto
termination
  by (relation "measure (\<lambda>(P, s). length s)") (auto simp: length_dropWhile_le less_Suc_eq_le)

definition alphabetic_runs :: "string \<Rightarrow> string list" where
  \<comment> \<open>Tokens in the words of the specification: the text in lower case, cut into its maximal
      runs of letters, any character that is no letter being a separator.\<close>
  "alphabetic_runs text = runs is_az (map lower text)"

definition tokens :: "string \<Rightarrow> string list" where
  \<comment> \<open>the maximal runs of word characters of the text in lower case that consist of the
      letters a to z only\<close>
  "tokens text = filter (list_all is_az) (runs is_word (map lower text))"

definition prev_word :: "char option \<Rightarrow> bool" where
  \<comment> \<open>the character before the current position is a word character\<close>
  "prev_word p = (case p of None \<Rightarrow> False | Some a \<Rightarrow> is_word a)"

definition open_end :: "string \<Rightarrow> bool" where
  \<comment> \<open>the text is empty or starts with a character that is no word character\<close>
  "open_end r = (case r of [] \<Rightarrow> True | d # _ \<Rightarrow> \<not> is_word d)"

definition priced :: "result_dict \<Rightarrow> prices option" where
  \<comment> \<open>the quadruple a result contributes: none when it carries an error or does not parse\<close>
  "priced r =
     (if get r ''error'' None \<noteq> None then None
      else parse_price_points (get r ''response'' (Some [])))"

definition valid_prices :: "result_dict list \<Rightarrow> prices list" where
  "valid_prices results = List.map_filter priced results"

definition matches_at :: "pattern \<Rightarrow> string \<Rightarrow> nat \<Rightarrow> string option" where
  \<comment> \<open>the pattern tried at start position \<open>i\<close> of the text\<close>
  "matches_at pat t i = pat (take i t) (drop i t)"

definition label_at :: "pattern \<Rightarrow> string \<Rightarrow> nat \<Rightarrow> rat \<Rightarrow> bool" where
  \<comment> \<open>the label stands at position \<open>i\<close>, and its number parses to \<open>v\<close>\<close>
  "label_at pat t i v =
     (i \<le> length t \<and>
      (case matches_at pat t i of
         None \<Rightarrow> False
       | Some g \<Rightarrow> py_float (remove_commas g) = Inr v))"

definition label_missing :: "pattern \<Rightarrow> string \<Rightarrow> bool" where
  \<comment> \<open>the pattern matches at no position of the text\<close>
  "label_missing pat t = list_all (\<lambda>i. matches_at pat t i = None) [0 ..< Suc (length t)]"


definition unit_fractions :: "cum_point \<Rightarrow> bool" where
  \<comment> \<open>the four fractions of a row lie between 0 and 1\<close>
  "unit_fractions c =
     (0 \<le> cum_too_cheap c \<and> cum_too_cheap c \<le> 1 \<and> 0 \<le> cum_bargain c \<and> cum_bargain c \<le> 1
      \<and> 0 \<le> cum_expensive c \<and> cum_expensive c \<le> 1
      \<and> 0 \<le> cum_too_expensive c \<and> cum_too_expensive c \<le> 1)"

definition later_point :: "cum_point \<Rightarrow> cum_point \<Rightarrow> bool" where
  \<comment> \<open>row \<open>b\<close> is at a higher price than row \<open>a\<close>, and the curves have moved the right way\<close>
  "later_point a b =
     (price a < price b
      \<and> cum_too_cheap b \<le> cum_too_cheap a \<and> cum_bargain b \<le> cum_bargain a
      \<and> cum_expensive a \<le> cum_expensive b \<and> cum_too_expensive a \<le> cum_too_expensive b)"

definition monotone_table :: "cum_point list \<Rightarrow> bool" where
  "monotone_table table = (sorted_wrt later_point table \<and> list_all unit_fractions table)"

definition respondent_1 :: result_dict where
  "respondent_1 = [''response'' \<mapsto> Some ''TOO_EXPENSIVE: 120 EXPENSIVE: 90 BARGAIN: 60 TOO_CHEAP: 40'']"

definition respondent_2 :: result_dict where
  "respondent_2 = [''response'' \<mapsto> Some ''TOO_EXPENSIVE: 130 EXPENSIVE: 100 BARGAIN: 70 TOO_CHEAP: 50'']"

section \<open>Example inputs\<close>

definition bargain_only :: result_dict where
  "bargain_only = [''response'' \<mapsto> Some ''BARGAIN: $80'']"

definition failed_task :: result_dict where
  "failed_task = [''response'' \<mapsto> None, ''error'' \<mapsto> Some ''TimeoutError: timed out'']"


definition example_persona :: persona where
  "example_persona =
     \<lparr>p_id = Some ''vc-1a2b3c4d'', p_name = Some ''Ada Park'', p_role = Some ''Partner'',
      p_company = None, p_background = Some ''Ten years in seed investing.'',
      p_beliefs = Some (Items [''Teams matter'', ''Markets matter'']),
      p_decision_style = Some ''Analytical.'',
      p_archetype_id = Some ''vc'', p_archetype_name = Some ''Seed VC Partner''\<rparr>"



definition example_success :: exec_result where
  "example_success =
     \<lparr>persona_id = ''vc-1a2b3c4d'', persona_name = ''Ada Park'', archetype_id = ''vc'',
      archetype_name = ''Seed VC Partner'', response = Some ''love risk'',
      sentiment = 33 / 100, tokens = \<lparr>input_tokens = 120, output_tokens = 7\<rparr>,
      model = ''claude-haiku'', task_elapsed_seconds = 3 / 2, error = None\<rparr>"

definition example_failure :: exec_result where
  "example_failure =
     \<lparr>persona_id = ''vc-1a2b3c4d'', persona_name = ''Ada Park'', archetype_id = ''vc'',
      archetype_name = ''Seed VC Partner'', response = None,
      sentiment = 0, tokens = \<lparr>input_tokens = 0, output_tokens = 0\<rparr>,
      model = ''claude-haiku'', task_elapsed_seconds = 3 / 2,
      error = Some ''APITimeoutError: Request timed out.''\<rparr>"

section \<open>Evaluation rules\<close>

lemmas char_eval = code_def is_space_def is_digit_def is_az_def is_word_def lower_def is_sep_def
  is_num_char_def char_of_def Let_def bit_Suc_0_iff

lemmas parser_eval = fraction_part_def number_group_def label_tail_def too_prefix_def labelled_def
  pat_too_expensive_def lookbehind_too_def pat_expensive_def pat_bargain_def pat_too_cheap_def
  re_search_def py_float_def remove_commas_def price_of_def parse_price_points_def

lemmas engine_eval = values_of_def price_axis_def count_if_def py_div_def fractions_at_def
  round_point_def eps_def item_def calculate_intersections_def py_round_def round_half_even_def
  Let_def

section \<open>The worked example of two respondents\<close>

lemma parse_respondent_1:
  "parse_price_points (Some ''TOO_EXPENSIVE: 120 EXPENSIVE: 90 BARGAIN: 60 TOO_CHEAP: 40'') =
     Some \<lparr>too_expensive = 120, expensive = 90, bargain = 60, too_cheap = 40\<rparr>"
  by (simp add: char_eval parser_eval)

lemma parse_respondent_2:
  "parse_price_points (Some ''TOO_EXPENSIVE: 130 EXPENSIVE: 100 BARGAIN: 70 TOO_CHEAP: 50'') =
     Some \<lparr>too_expensive = 130, expensive = 100, bargain = 70, too_cheap = 50\<rparr>"
  by (simp add: char_eval parser_eval)

lemma intersections_two_respondents:
  "calculate_intersections
     [\<lparr>too_expensive = 120, expensive = 90, bargain = 60, too_cheap = 40\<rparr>,
      \<lparr>too_expensive = 130, expensive = 100, bargain = 70, too_cheap = 50\<rparr>] =
   Inr \<lparr>optimal_price_point = Some 60,
        indifference_price_point = Some 80,
        point_of_marginal_cheapness = Some 60,
        point_of_marginal_expensiveness = Some 90,
        acceptable_price_range = \<lparr>low = Some 60, high = Some 90\<rparr>,
        cumulative_data =
          [\<lparr>price = 40, cum_too_cheap = 1, cum_bargain = 1, cum_expensive = 0, cum_too_expensive = 0\<rparr>,
           \<lparr>price = 50, cum_too_cheap = 1 / 2, cum_bargain = 1, cum_expensive = 0, cum_too_expensive = 0\<rparr>,
           \<lparr>price = 60, cum_too_cheap = 0, cum_bargain = 1, cum_expensive = 0, cum_too_expensive = 0\<rparr>,
           \<lparr>price = 70, cum_too_cheap = 0, cum_bargain = 1 / 2, cum_expensive = 0, cum_too_expensive = 0\<rparr>,
           \<lparr>price = 90, cum_too_cheap = 0, cum_bargain = 0, cum_expensive = 1 / 2, cum_too_expensive = 0\<rparr>,
           \<lparr>price = 100, cum_too_cheap = 0, cum_bargain = 0, cum_expensive = 1, cum_too_expensive = 0\<rparr>,
           \<lparr>price = 120, cum_too_cheap = 0, cum_bargain = 0, cum_expensive = 1, cum_too_expensive = 1 / 2\<rparr>,
           \<lparr>price = 130, cum_too_cheap = 0, cum_bargain = 0, cum_expensive = 1, cum_too_expensive = 1\<rparr>]\<rparr>"
  by (simp add: engine_eval)

lemma collect_two_respondents:
  "collect_prices [respondent_1, respondent_2] ([], []) =
     ([\<lparr>too_expensive = 120, expensive = 90, bargain = 60, too_cheap = 40\<rparr>,
       \<lparr>too_expensive = 130, expensive = 100, bargain = 70, too_cheap = 50\<rparr>],
      [(Some ''unknown'',
        [\<lparr>too_expensive = 120, expensive = 90, bargain = 60, too_cheap = 40\<rparr>,
         \<lparr>too_expensive = 130, expensive = 100, bargain = 70, too_cheap = 50\<rparr>])])"
  by (simp add: respondent_1_def respondent_2_def get_def parse_respondent_1 parse_respondent_2)

text \<open>
  C1. The two respondents with the quadruples (too cheap, bargain, expensive, too
  expensive) = (40, 60, 90, 120) and (50, 70, 100, 130), given as two responses in the
  documented format, make \<open>calculate_van_westendorp\<close> return a result in which all four
  points are non-null: the optimal price point is 60, the indifference price point 80,
  the point of marginal cheapness 60 and the point of marginal expensiveness 90. The
  point of marginal cheapness is at most the point of marginal expensiveness, and the
  low end of the acceptable range, 60, is at most its high end, 90.
\<close>

theorem two_respondents_all_points:
  "\<exists>r cheapness expensiveness range_low range_high.
      calculate_van_westendorp [respondent_1, respondent_2] = Inr r
      \<and> optimal_price_point r = Some 60
      \<and> indifference_price_point r = Some 80
      \<and> point_of_marginal_cheapness r = Some cheapness
      \<and> point_of_marginal_expensiveness r = Some expensiveness
      \<and> cheapness \<le> expensiveness
      \<and> acceptable_price_range r = \<lparr>low = Some range_low, high = Some range_high\<rparr>
      \<and> range_low \<le> range_high
      \<and> cheapness = 60 \<and> expensiveness = 90 \<and> range_low = 60 \<and> range_high = 90
      \<and> by_archetype r =
          [(Some ''unknown'', \<lparr>opp = Some 60, ipp = Some 80, pmc = Some 60, pme = Some 90\<rparr>)]"
  unfolding calculate_van_westendorp_def collect_two_respondents
  by (simp add: intersections_two_respondents intersections.defs vw_result.defs)

section \<open>The price parser\<close>

subsection \<open>What a search returns\<close>

lemma search_from_Some:
  "search_from pat pre s = Some (i, g) \<Longrightarrow>
     \<exists>k\<le>length s. i = length pre + k \<and> pat (pre @ take k s) (drop k s) = Some g"
proof (induction s arbitrary: pre)
  case Nil
  then show ?case by (auto split: option.splits)
next
  case (Cons c cs)
  show ?case
  proof (cases "pat pre (c # cs)")
    case (Some g')
    with Cons.prems have "i = length pre" "g' = g" by auto
    with Some show ?thesis by (intro exI [of _ 0]) simp
  next
    case None
    with Cons.prems have "search_from pat (pre @ [c]) cs = Some (i, g)" by simp
    then obtain k where k: "k \<le> length cs" "i = length (pre @ [c]) + k"
        "pat ((pre @ [c]) @ take k cs) (drop k cs) = Some g"
      using Cons.IH by blast
    then show ?thesis by (intro exI [of _ "Suc k"]) simp
  qed
qed

lemma search_from_None:
  "search_from pat pre s = None \<Longrightarrow> k \<le> length s \<Longrightarrow> pat (pre @ take k s) (drop k s) = None"
proof (induction s arbitrary: pre k)
  case Nil
  then show ?case by (auto split: option.splits)
next
  case (Cons c cs)
  from Cons.prems(1) have here: "pat pre (c # cs) = None"
    and later: "search_from pat (pre @ [c]) cs = None"
    by (auto split: option.splits)
  show ?case
  proof (cases k)
    case 0
    with here show ?thesis by simp
  next
    case (Suc j)
    with Cons.prems(2) have "j \<le> length cs" by simp
    from Cons.IH [OF later this] Suc show ?thesis by simp
  qed
qed

lemma re_search_Some:
  "re_search pat t = Some (i, g) \<Longrightarrow> i \<le> length t \<and> matches_at pat t i = Some g"
  using search_from_Some [of pat "[]" t i g] by (auto simp: re_search_def matches_at_def)

lemma re_search_None:
  "re_search pat t = None \<Longrightarrow> i \<le> length t \<Longrightarrow> matches_at pat t i = None"
  using search_from_None [of pat "[]" t i] by (auto simp: re_search_def matches_at_def)

lemma price_of_Some:
  "price_of pat t = Some v \<Longrightarrow> \<exists>i. label_at pat t i v"
proof -
  assume a: "price_of pat t = Some v"
  then obtain i g where s: "re_search pat t = Some (i, g)" and f: "py_float (remove_commas g) = Inr v"
    by (auto simp: price_of_def split: option.splits sum.splits)
  from re_search_Some [OF s] f have "label_at pat t i v"
    by (simp add: label_at_def)
  then show ?thesis ..
qed

lemma label_missing_price_of:
  "label_missing pat t \<Longrightarrow> price_of pat t = None"
proof (rule ccontr)
  assume m: "label_missing pat t" and "price_of pat t \<noteq> None"
  then obtain i g where "re_search pat t = Some (i, g)"
    by (auto simp: price_of_def split: option.splits)
  from re_search_Some [OF this] have "i \<le> length t" "matches_at pat t i = Some g" by auto
  moreover from m have "\<forall>i\<le>length t. matches_at pat t i = None"
    by (auto simp: label_missing_def list_all_iff)
  ultimately show False by auto
qed

lemma price_of_None_parse:
  "pat \<in> set patterns \<Longrightarrow> price_of pat t = None \<Longrightarrow> parse_price_points (Some t) = None"
  by (auto simp: patterns_def parse_price_points_def split: option.splits)

lemma parse_Some_fields:
  "parse_price_points text = Some q \<Longrightarrow>
     \<exists>t. text = Some t \<and> t \<noteq> []
        \<and> price_of pat_too_expensive t = Some (too_expensive q)
        \<and> price_of pat_expensive t = Some (expensive q)
        \<and> price_of pat_bargain t = Some (bargain q)
        \<and> price_of pat_too_cheap t = Some (too_cheap q)"
  by (auto simp: parse_price_points_def split: option.splits if_splits)

lemma collect_prices_skip:
  "priced r = None \<Longrightarrow> collect_prices (rs1 @ r # rs2) acc = collect_prices (rs1 @ rs2) acc"
proof (induction rs1 arbitrary: acc)
  case Nil
  obtain ap ba where "acc = (ap, ba)" by (cases acc)
  with Nil show ?case by (auto simp: priced_def split: if_splits option.splits)
next
  case (Cons a rs1)
  obtain ap ba where "acc = (ap, ba)" by (cases acc)
  with Cons show ?case by (auto split: option.splits)
qed

lemma van_westendorp_skip:
  "priced r = None \<Longrightarrow>
     calculate_van_westendorp (rs1 @ r # rs2) = calculate_van_westendorp (rs1 @ rs2)"
  by (simp add: calculate_van_westendorp_def collect_prices_skip)

lemma parse_None_priced:
  "parse_price_points (get r ''response'' (Some [])) = None \<Longrightarrow> priced r = None"
  by (simp add: priced_def)

subsection \<open>Concrete texts\<close>

lemma parse_bargain_only: "parse_price_points (Some ''BARGAIN: $80'') = None"
  by (simp add: char_eval parser_eval)

lemma too_cheap_missing: "label_missing pat_too_cheap ''BARGAIN: $80''"
  by (simp add: label_missing_def matches_at_def upt_rec char_eval parser_eval)

lemma commas_only_found: "re_search pat_too_expensive ''TOO_EXPENSIVE: ,,'' = Some (0, '',,'')"
  by (simp add: char_eval parser_eval)

lemma commas_only_float: "py_float (remove_commas '',,'') = Inl ValueError"
  by (simp add: char_eval parser_eval)




subsection \<open>The lookbehind\<close>




section \<open>Rounding\<close>

lemma round_half_even_bounds: "\<lfloor>x\<rfloor> \<le> round_half_even x \<and> round_half_even x \<le> \<lfloor>x\<rfloor> + 1"
  by (simp add: round_half_even_def Let_def)

lemma round_half_even_mono: "x \<le> y \<Longrightarrow> round_half_even x \<le> round_half_even y"
proof -
  assume xy: "x \<le> y"
  then have fl: "\<lfloor>x\<rfloor> \<le> \<lfloor>y\<rfloor>" by (rule floor_mono)
  show ?thesis
  proof (cases "\<lfloor>x\<rfloor> = \<lfloor>y\<rfloor>")
    case True
    with xy have "x - of_int \<lfloor>x\<rfloor> \<le> y - of_int \<lfloor>y\<rfloor>" by simp
    with True show ?thesis
      by (auto simp: round_half_even_def Let_def)
  next
    case False
    with fl have "\<lfloor>x\<rfloor> + 1 \<le> \<lfloor>y\<rfloor>" by simp
    with round_half_even_bounds [of x] round_half_even_bounds [of y] show ?thesis
      by linarith
  qed
qed

lemma round_half_even_of_int: "round_half_even (of_int k) = k"
  by (simp add: round_half_even_def Let_def)

lemma py_round_mono: "x \<le> y \<Longrightarrow> py_round x n \<le> py_round y n"
proof -
  assume "x \<le> y"
  then have "x * 10 ^ n \<le> y * 10 ^ n" by (simp add: mult_right_mono)
  then have "round_half_even (x * 10 ^ n) \<le> round_half_even (y * 10 ^ n)"
    by (rule round_half_even_mono)
  then have "(of_int (round_half_even (x * 10 ^ n)) :: rat) \<le> of_int (round_half_even (y * 10 ^ n))"
    by simp
  then show ?thesis
    by (simp add: py_round_def divide_right_mono)
qed

lemma py_round_of_int: "py_round (of_int k) n = of_int k"
proof -
  have "(of_int k :: rat) * 10 ^ n = of_int (k * 10 ^ n)" by simp
  then have "round_half_even (of_int k * 10 ^ n) = k * 10 ^ n"
    using round_half_even_of_int by metis
  then show ?thesis by (simp add: py_round_def)
qed

lemma py_round_0: "py_round 0 n = 0"
  using py_round_of_int [of 0 n] by simp

lemma py_round_1: "py_round 1 n = 1"
  using py_round_of_int [of 1 n] by simp


lemma py_round_unit: "0 \<le> x \<Longrightarrow> x \<le> 1 \<Longrightarrow> 0 \<le> py_round x n \<and> py_round x n \<le> 1"
  using py_round_mono [of 0 x n] py_round_mono [of x 1 n] by (simp add: py_round_0 py_round_1)

section \<open>The intersection engine\<close>

subsection \<open>The collecting loop\<close>

lemma fst_collect_prices:
  "fst (collect_prices rs (ap, ba)) = ap @ valid_prices rs"
proof (induction rs arbitrary: ap ba)
  case Nil
  then show ?case by (simp add: valid_prices_def List.map_filter_simps)
next
  case (Cons r rs)
  show ?case
  proof (cases "priced r")
    case None
    then show ?thesis
      using Cons.IH [of ap ba]
      by (auto simp: valid_prices_def List.map_filter_simps priced_def split: if_splits option.splits)
  next
    case (Some q)
    then show ?thesis
      using Cons.IH [of "ap @ [q]" "append_to (get r ''archetype_name'' (Some ''unknown'')) q ba"]
      by (auto simp: valid_prices_def List.map_filter_simps priced_def split: if_splits option.splits)
  qed
qed

lemma valid_prices_example:
  "valid_prices [bargain_only, failed_task, respondent_1] =
     [\<lparr>too_expensive = 120, expensive = 90, bargain = 60, too_cheap = 40\<rparr>]"
  by (simp add: valid_prices_def List.map_filter_simps priced_def get_def bargain_only_def
        failed_task_def respondent_1_def parse_bargain_only parse_respondent_1)

subsection \<open>No step fails\<close>

lemma build_cumulative_ok:
  "n \<noteq> 0 \<Longrightarrow> \<exists>cs. build_cumulative pd n ps = Inr cs \<and> length cs = length ps"
  by (induction ps) (auto simp: fractions_at_def py_div_def)

lemma price_axis_nonempty: "pd \<noteq> [] \<Longrightarrow> price_axis pd \<noteq> []"
proof -
  assume "pd \<noteq> []"
  then obtain q qs where "pd = q # qs" by (cases pd) auto
  then have "too_expensive q \<in> set (price_axis pd)"
    by (simp add: price_axis_def values_of_def)
  then show ?thesis by auto
qed

lemma item_first_ok: "xs \<noteq> [] \<Longrightarrow> item xs 0 = Inr (xs ! 0)"
  by (simp add: item_def)

lemma item_last_ok: "xs \<noteq> [] \<Longrightarrow> item xs (- 1) = Inr (last xs)"
proof -
  assume ne: "xs \<noteq> []"
  then have "0 < length xs" by simp
  then have "nat (int (length xs) - 1) = length xs - 1" by linarith
  with ne show ?thesis
    by (simp add: item_def last_conv_nth)
qed

lemma calculate_intersections_ok:
  "pd \<noteq> [] \<Longrightarrow> \<exists>r. calculate_intersections pd = Inr r"
proof -
  assume ne: "pd \<noteq> []"
  then have n: "length pd \<noteq> 0" by simp
  obtain cs where cs: "build_cumulative pd (length pd) (price_axis pd) = Inr cs"
    using build_cumulative_ok [OF n] by blast
  have ax: "price_axis pd \<noteq> []"
    using ne by (rule price_axis_nonempty)
  show ?thesis
    by (simp add: calculate_intersections_def Let_def cs item_first_ok [OF ax] item_last_ok [OF ax]
          split: option.splits)
qed

lemma archetype_loop_ok: "\<exists>r. archetype_loop groups acc = Inr r"
proof (induction groups arbitrary: acc)
  case Nil
  show ?case by simp
next
  case (Cons g groups)
  obtain arch ps where g: "g = (arch, ps)" by (cases g)
  show ?case
  proof (cases "2 \<le> length ps")
    case True
    then have "ps \<noteq> []" by auto
    then obtain r where "calculate_intersections ps = Inr r"
      using calculate_intersections_ok by blast
    with True g Cons.IH show ?thesis by simp
  next
    case False
    with g Cons.IH show ?thesis by simp
  qed
qed

lemma calculate_van_westendorp_ok: "\<exists>r. calculate_van_westendorp results = Inr r"
proof -
  obtain ap ba where c: "collect_prices results ([], []) = (ap, ba)"
    by (cases "collect_prices results ([], [])")
  show ?thesis
  proof (cases "length ap < 2")
    case True
    with c show ?thesis by (simp add: calculate_van_westendorp_def)
  next
    case False
    then have "ap \<noteq> []" by auto
    then obtain ov where ov: "calculate_intersections ap = Inr ov"
      using calculate_intersections_ok by blast
    obtain ar where ar: "archetype_loop ba [] = Inr ar"
      using archetype_loop_ok by blast
    from False c ov ar show ?thesis by (simp add: calculate_van_westendorp_def)
  qed
qed

subsection \<open>The cumulative table\<close>

lemma count_if_mono:
  "(\<And>q. P q \<Longrightarrow> Q q) \<Longrightarrow> count_if P pd \<le> count_if Q pd"
proof -
  assume imp: "\<And>q. P q \<Longrightarrow> Q q"
  have "length (filter P pd) \<le> length (filter Q pd)"
  proof (induction pd)
    case Nil
    show ?case by simp
  next
    case (Cons q pd)
    with imp [of q] show ?case by auto
  qed
  then show ?thesis by (simp add: count_if_def)
qed

lemma count_if_bounds: "0 \<le> count_if P pd \<and> count_if P pd \<le> of_nat (length pd)"
  by (simp add: count_if_def)

lemma py_div_Inr: "py_div a n = Inr v \<Longrightarrow> 0 < n \<and> v = a / of_nat n"
  by (auto simp: py_div_def split: if_splits)

lemma fractions_at_Inr:
  "fractions_at pd n p = Inr c \<Longrightarrow>
     0 < n \<and> price c = p
     \<and> cum_too_cheap c = count_if (\<lambda>q. p \<le> too_cheap q) pd / of_nat n
     \<and> cum_bargain c = count_if (\<lambda>q. p \<le> bargain q) pd / of_nat n
     \<and> cum_expensive c = count_if (\<lambda>q. expensive q \<le> p) pd / of_nat n
     \<and> cum_too_expensive c = count_if (\<lambda>q. too_expensive q \<le> p) pd / of_nat n"
  by (auto simp: fractions_at_def split: sum.splits dest!: py_div_Inr)

lemma fraction_unit:
  "0 < n \<Longrightarrow> n = length pd \<Longrightarrow> 0 \<le> count_if P pd / of_nat n \<and> count_if P pd / of_nat n \<le> 1"
  using count_if_bounds [of P pd] by (simp add: divide_le_eq)

lemma fractions_unit:
  "fractions_at pd (length pd) p = Inr c \<Longrightarrow> unit_fractions c"
proof -
  assume a: "fractions_at pd (length pd) p = Inr c"
  note f = fractions_at_Inr [OF a]
  from f have n: "0 < length pd" by simp
  show ?thesis
    unfolding unit_fractions_def
    using f fraction_unit [OF n refl] by simp
qed

lemma fractions_later:
  assumes a: "fractions_at pd n p = Inr a" and b: "fractions_at pd n p' = Inr b" and lt: "p < p'"
  shows "later_point a b"
proof -
  note fa = fractions_at_Inr [OF a] and fb = fractions_at_Inr [OF b]
  from fa have n: "(0 :: rat) < of_nat n" by simp
  have 1: "count_if (\<lambda>q. p' \<le> too_cheap q) pd \<le> count_if (\<lambda>q. p \<le> too_cheap q) pd"
    using lt by (intro count_if_mono) simp
  have 2: "count_if (\<lambda>q. p' \<le> bargain q) pd \<le> count_if (\<lambda>q. p \<le> bargain q) pd"
    using lt by (intro count_if_mono) simp
  have 3: "count_if (\<lambda>q. expensive q \<le> p) pd \<le> count_if (\<lambda>q. expensive q \<le> p') pd"
    using lt by (intro count_if_mono) simp
  have 4: "count_if (\<lambda>q. too_expensive q \<le> p) pd \<le> count_if (\<lambda>q. too_expensive q \<le> p') pd"
    using lt by (intro count_if_mono) simp
  from n 1 2 3 4 fa fb lt show ?thesis
    by (simp add: later_point_def divide_right_mono)
qed

lemma round_point_unit: "unit_fractions c \<Longrightarrow> unit_fractions (round_point c)"
  by (simp add: unit_fractions_def round_point_def py_round_unit)

lemma round_point_later: "later_point a b \<Longrightarrow> later_point (round_point a) (round_point b)"
  by (simp add: later_point_def round_point_def py_round_mono)

lemma build_cumulative_rows:
  "build_cumulative pd n ps = Inr cs \<Longrightarrow>
     \<exists>raw. list_all2 (\<lambda>p c. fractions_at pd n p = Inr c) ps raw \<and> cs = map round_point raw"
proof (induction ps arbitrary: cs)
  case Nil
  then show ?case by simp
next
  case (Cons p ps)
  from Cons.prems obtain c rest where c: "fractions_at pd n p = Inr c"
    and r: "build_cumulative pd n ps = Inr rest" and cs: "cs = round_point c # rest"
    by (auto split: sum.splits)
  from Cons.IH [OF r] obtain raw where
    "list_all2 (\<lambda>p c. fractions_at pd n p = Inr c) ps raw" "rest = map round_point raw"
    by blast
  with c cs have "list_all2 (\<lambda>p c. fractions_at pd n p = Inr c) (p # ps) (c # raw)
      \<and> cs = map round_point (c # raw)" by simp
  then show ?case by blast
qed

lemma price_axis_strict: "sorted_wrt (<) (price_axis pd)"
  by (simp add: price_axis_def strict_sorted_iff)

lemma rows_monotone:
  assumes rel: "list_all2 (\<lambda>p c. fractions_at pd (length pd) p = Inr c) ps raw"
    and srt: "sorted_wrt (<) ps"
  shows "monotone_table raw \<and> monotone_table (map round_point raw)"
proof -
  from rel have len: "length raw = length ps"
    and row: "\<And>i. i < length ps \<Longrightarrow> fractions_at pd (length pd) (ps ! i) = Inr (raw ! i)"
    by (auto simp: list_all2_conv_all_nth)
  have later: "later_point (raw ! i) (raw ! j)" if "i < j" "j < length raw" for i j
  proof -
    from that len srt have "ps ! i < ps ! j"
      by (simp add: sorted_wrt_iff_nth_less)
    with row [of i] row [of j] that len show ?thesis
      by (intro fractions_later [of pd "length pd" "ps ! i" _ "ps ! j"]) simp_all
  qed
  have unit: "unit_fractions c" if "c \<in> set raw" for c
  proof -
    from that obtain i where "i < length raw" "c = raw ! i"
      by (auto simp: in_set_conv_nth)
    with row [of i] len show ?thesis
      by (auto intro: fractions_unit)
  qed
  have s1: "sorted_wrt later_point raw"
    using later by (simp add: sorted_wrt_iff_nth_less)
  have s2: "sorted_wrt later_point (map round_point raw)"
    using later by (simp add: sorted_wrt_iff_nth_less round_point_later)
  from s1 s2 unit show ?thesis
    by (auto simp: monotone_table_def list_all_iff round_point_unit)
qed

lemma calculate_intersections_cumulative:
  assumes ne: "pd \<noteq> []"
  shows "\<exists>r cs. calculate_intersections pd = Inr r
     \<and> build_cumulative pd (length pd) (price_axis pd) = Inr cs \<and> cumulative_data r = cs"
proof -
  from ne have n: "length pd \<noteq> 0" by simp
  obtain cs where cs: "build_cumulative pd (length pd) (price_axis pd) = Inr cs"
    using build_cumulative_ok [OF n] by blast
  have ax: "price_axis pd \<noteq> []"
    using ne by (rule price_axis_nonempty)
  show ?thesis
    by (simp add: calculate_intersections_def Let_def cs item_first_ok [OF ax] item_last_ok [OF ax]
          split: option.splits)
qed

section \<open>The persona task and the aggregator\<close>

subsection \<open>Outcomes of one task\<close>









subsection \<open>The reductions of the aggregator\<close>

lemma append_to_nonempty:
  "\<forall>p \<in> set d. snd p \<noteq> [] \<Longrightarrow> \<forall>p \<in> set (append_to a v d). snd p \<noteq> []"
proof (induction d)
  case Nil
  show ?case by simp
next
  case (Cons g d)
  obtain k vs where g: "g = (k, vs)" by (cases g)
  from Cons.prems g have vs: "vs \<noteq> []" and rest: "\<forall>p \<in> set d. snd p \<noteq> []" by auto
  from Cons.IH [OF rest] have ih: "\<forall>p \<in> set (append_to a v d). snd p \<noteq> []" .
  show ?case
  proof (cases "a = k")
    case True
    with g vs rest show ?thesis by simp
  next
    case False
    with g vs ih show ?thesis by simp
  qed
qed

lemma group_sentiments_nonempty:
  "\<forall>p \<in> set d. snd p \<noteq> [] \<Longrightarrow> \<forall>p \<in> set (group_sentiments rs d). snd p \<noteq> []"
proof (induction rs arbitrary: d)
  case Nil
  then show ?case by simp
next
  case (Cons r rs)
  from append_to_nonempty [OF Cons.prems]
  have "\<forall>p \<in> set (append_to (archetype_name r) (sentiment r) d). snd p \<noteq> []" .
  from Cons.IH [OF this] show ?case by simp
qed

lemma mean3_ok: "scores \<noteq> [] \<Longrightarrow> \<exists>m. mean3 scores = Inr m"
  by (simp add: mean3_def py_div_def)

lemma archetype_means_ok:
  "\<forall>p \<in> set d. snd p \<noteq> [] \<Longrightarrow> \<exists>ms. archetype_means d = Inr ms"
proof (induction d)
  case Nil
  show ?case by simp
next
  case (Cons g d)
  obtain k vs where g: "g = (k, vs)" by (cases g)
  with Cons.prems have "vs \<noteq> []" by simp
  then obtain m where "mean3 vs = Inr m" using mean3_ok by blast
  moreover from Cons obtain ms where "archetype_means d = Inr ms" by auto
  ultimately show ?case using g by simp
qed

lemma compute_metrics_shape:
  "\<exists>avg arch. compute_metrics personas results start_time end_time =
     Inr \<lparr>total_personas = length personas,
          successful_responses = length (filter (\<lambda>r. error r = None) results),
          failed_responses = length (filter (\<lambda>r. error r \<noteq> None) results),
          avg_sentiment = avg,
          archetype_sentiments = arch,
          total_tokens = add_tokens results \<lparr>input_tokens = 0, output_tokens = 0\<rparr>,
          elapsed_seconds = py_round (end_time - start_time) 2\<rparr>
     \<and> (if map sentiment (filter (\<lambda>r. error r = None) results) \<noteq> [] then mean3 (map sentiment (filter (\<lambda>r. error r = None) results)) else Inr 0) = Inr avg
     \<and> archetype_means (group_sentiments (filter (\<lambda>r. error r = None) results) []) = Inr arch"
proof -
  let ?succ = "filter (\<lambda>r. error r = None) results"
  obtain avg where avg: "(if map sentiment ?succ \<noteq> [] then mean3 (map sentiment ?succ) else Inr 0) = Inr avg"
    using mean3_ok [of "map sentiment ?succ"] by (cases "map sentiment ?succ = []") auto
  have "\<forall>p \<in> set (group_sentiments ?succ []). snd p \<noteq> []"
    by (rule group_sentiments_nonempty) simp
  then obtain arch where arch: "archetype_means (group_sentiments ?succ []) = Inr arch"
    using archetype_means_ok by blast
  show ?thesis
    using avg arch by (simp add: compute_metrics_def Let_def)
qed

lemma metrics_example:
  "compute_metrics [example_persona, example_persona] [example_success, example_failure] 0 (5 / 2) =
     Inr \<lparr>total_personas = 2, successful_responses = 1, failed_responses = 1,
          avg_sentiment = 33 / 100,
          archetype_sentiments = [(''Seed VC Partner'', 33 / 100)],
          total_tokens = \<lparr>input_tokens = 120, output_tokens = 7\<rparr>,
          elapsed_seconds = 5 / 2\<rparr>"
  by (simp add: compute_metrics_def py_round_def round_half_even_def Let_def example_success_def
        example_failure_def mean3_def py_div_def)

section \<open>The sentiment scorer\<close>

subsection \<open>The score as a function of the two sums\<close>

lemma score_words_sums:
  "score_words ws (p, n) =
     (p + sum_list (map positive_weight ws), n + sum_list (map negative_weight ws))"
  by (induction ws arbitrary: p n)
     (auto simp: positive_weight_def negative_weight_def split: option.splits)





lemma space_not_az_lower: "is_space c \<Longrightarrow> \<not> is_az (lower c)"
  by (auto simp: is_space_def is_az_def lower_def Let_def)

lemma match_word_no_az: "\<not> is_az c \<Longrightarrow> match_word prev (c # cs) = None"
  by (simp add: match_word_def greedy_prefixes_def)

lemma findall_words_no_az: "\<forall>c \<in> set s. \<not> is_az c \<Longrightarrow> findall_words prev s = []"
  by (induction s arbitrary: prev) (simp_all add: match_word_no_az)

lemma strip_empty_spaces: "strip s = [] \<Longrightarrow> \<forall>c \<in> set s. is_space c"
proof -
  assume "strip s = []"
  then have a: "dropWhile is_space (rev (dropWhile is_space s)) = []"
    by (simp add: strip_def)
  have "dropWhile is_space s = []"
  proof (rule ccontr)
    assume ne: "dropWhile is_space s \<noteq> []"
    then have "\<not> is_space (hd (dropWhile is_space s))"
      by (rule hd_dropWhile)
    moreover from ne have "hd (dropWhile is_space s) \<in> set (rev (dropWhile is_space s))"
      by simp
    moreover from a have "\<forall>x \<in> set (rev (dropWhile is_space s)). is_space x"
      by (simp only: dropWhile_eq_Nil_conv)
    ultimately show False by blast
  qed
  then show ?thesis by (simp add: dropWhile_eq_Nil_conv)
qed

lemma blank_no_words:
  assumes "text = [] \<or> strip text = []"
  shows "findall_words None (map lower text) = []"
proof -
  from assms have "\<forall>c \<in> set text. is_space c"
    using strip_empty_spaces by auto
  then have "\<forall>c \<in> set (map lower text). \<not> is_az c"
    by (auto simp: space_not_az_lower)
  then show ?thesis by (rule findall_words_no_az)
qed

lemma analyze_sentiment_sums:
  "analyze_sentiment text =
     (if pos_sum text + neg_sum text = 0 then 0
      else max (- 1) (min 1 (py_round (of_int (pos_sum text - neg_sum text)
                                        / of_int (pos_sum text + neg_sum text)) 2)))"
proof (cases "text = [] \<or> strip text = []")
  case True
  then have "findall_words None (map lower text) = []" by (rule blank_no_words)
  then have "pos_sum text = 0" "neg_sum text = 0"
    by (simp_all add: pos_sum_def neg_sum_def)
  with True show ?thesis by (simp add: analyze_sentiment_def)
next
  case False
  then show ?thesis
    by (simp add: analyze_sentiment_def Let_def score_words_sums pos_sum_def neg_sum_def)
qed



subsection \<open>What the tokenizer finds\<close>

lemma az_word: "is_az c \<Longrightarrow> is_word c"
  by (auto simp: is_az_def is_word_def Let_def)

lemma greedy_prefixes_Nil: "takeWhile P s = [] \<Longrightarrow> greedy_prefixes P s = []"
  by (simp add: greedy_prefixes_def)

lemma greedy_prefixes_Cons:
  assumes "takeWhile P s \<noteq> []"
  shows "greedy_prefixes P s =
     takeWhile P s # map (\<lambda>k. take k s) (rev [1 ..< length (takeWhile P s)])"
proof -
  let ?m = "length (takeWhile P s)"
  from assms have "1 \<le> ?m" by (simp add: Suc_leI)
  then have "[1 ..< Suc ?m] = [1 ..< ?m] @ [?m]" by simp
  then have "greedy_prefixes P s = take ?m s # map (\<lambda>k. take k s) (rev [1 ..< ?m])"
    by (simp add: greedy_prefixes_def)
  moreover have "take ?m s = takeWhile P s"
    by (rule takeWhile_eq_take [symmetric])
  ultimately show ?thesis by simp
qed

lemma shorter_prefix_no_boundary:
  assumes k: "1 \<le> k" "k < length (takeWhile is_az s)"
  shows "\<not> word_boundary (Some (last (take k s))) (head (drop (length (take k s)) s))"
proof -
  let ?m = "length (takeWhile is_az s)"
  have m: "?m \<le> length s" by (rule length_takeWhile_le)
  with k have len: "length (take k s) = k" by simp
  have az: "is_az (s ! j)" if "j < ?m" for j
  proof -
    from that have "takeWhile is_az s ! j = s ! j" by (rule takeWhile_nth)
    moreover from that have "takeWhile is_az s ! j \<in> set (takeWhile is_az s)" by simp
    ultimately show ?thesis by (auto dest: set_takeWhileD)
  qed
  from k m have "take k s \<noteq> []" by auto
  then have "last (take k s) = take k s ! (k - 1)"
    using len by (simp add: last_conv_nth)
  also from k have "\<dots> = s ! (k - 1)" by simp
  finally have l: "is_word (last (take k s))"
    using az [of "k - 1"] k by (simp add: az_word)
  from k m have "drop k s = s ! k # drop (Suc k) s"
    by (simp add: Cons_nth_drop_Suc)
  then have "head (drop k s) = Some (s ! k)" by (simp add: head_def)
  with l az [of k] k len show ?thesis
    by (simp add: word_boundary_def az_word)
qed

lemma boundary_open_end: "is_word a \<Longrightarrow> word_boundary (Some a) (head r) = open_end r"
  by (cases r) (simp_all add: word_boundary_def head_def open_end_def)

lemma open_end_while: "open_end r \<Longrightarrow> dropWhile is_word r = r \<and> takeWhile is_word r = []"
  by (cases r) (simp_all add: open_end_def)

lemma closed_end_head: "\<not> open_end r \<Longrightarrow> \<exists>d r'. r = d # r' \<and> is_word d"
  by (cases r) (simp_all add: open_end_def)

lemma find_None: "(\<And>x. x \<in> set xs \<Longrightarrow> \<not> P x) \<Longrightarrow> find P xs = None"
  by (induction xs) auto

lemma match_word_eq:
  "match_word prev s =
     (if prev_word prev \<noteq> (case head s of None \<Rightarrow> False | Some c \<Rightarrow> is_word c)
         \<and> takeWhile is_az s \<noteq> [] \<and> open_end (dropWhile is_az s)
      then Some (takeWhile is_az s) else None)"
proof (cases "takeWhile is_az s = []")
  case True
  then show ?thesis
    by (simp add: match_word_def greedy_prefixes_Nil)
next
  case False
  let ?run = "takeWhile is_az s"
  let ?Q = "\<lambda>w. word_boundary (Some (last w)) (head (drop (length w) s))"
  from False have "last ?run \<in> set ?run" by (rule last_in_set)
  then have lw: "is_word (last ?run)" by (auto dest: set_takeWhileD simp: az_word)
  have "drop (length ?run) s = dropWhile is_az s"
    by (rule dropWhile_eq_drop [symmetric])
  then have "?Q ?run = word_boundary (Some (last ?run)) (head (dropWhile is_az s))"
    by (simp only:)
  with lw have first: "?Q ?run \<longleftrightarrow> open_end (dropWhile is_az s)"
    by (simp only: boundary_open_end)
  have rest: "find ?Q (map (\<lambda>k. take k s) (rev [1 ..< length ?run])) = None"
  proof (rule find_None)
    fix x
    assume "x \<in> set (map (\<lambda>k. take k s) (rev [1 ..< length ?run]))"
    then obtain k where x: "x = take k s" and k: "1 \<le> k" "k < length ?run"
      by auto
    from shorter_prefix_no_boundary [OF k] show "\<not> ?Q x"
      unfolding x .
  qed
  have "find ?Q (greedy_prefixes is_az s) = (if open_end (dropWhile is_az s) then Some ?run else None)"
    using first rest by (simp add: greedy_prefixes_Cons [OF False])
  with False show ?thesis
    by (simp add: match_word_def word_boundary_def prev_word_def)
qed

lemma no_az_not_all: "\<not> is_az c \<Longrightarrow> c \<in> set w \<Longrightarrow> \<not> list_all is_az w"
  by (auto simp: list_all_iff)

lemma findall_words_runs:
  "findall_words prev s =
     filter (list_all is_az) (runs is_word (if prev_word prev then dropWhile is_word s else s))"
proof (induction prev s rule: findall_words.induct)
  case (1 prev)
  show ?case by simp
next
  case (2 prev c cs)
  let ?s = "c # cs"
  let ?run = "takeWhile is_az ?s"
  let ?rest = "dropWhile is_az ?s"
  have pw: "prev_word (Some c) = is_word c" by (simp add: prev_word_def)
  show ?case
  proof (cases "is_word c")
    case False
    then have naz: "\<not> is_az c" using az_word by blast
    then have "match_word prev ?s = None" by (simp add: match_word_eq)
    with 2 False pw show ?thesis by simp
  next
    case True
    show ?thesis
    proof (cases "prev_word prev")
      case pt: True
      with True have "match_word prev ?s = None" by (simp add: match_word_eq head_def)
      with 2 True pw pt show ?thesis by simp
    next
      case pf: False
      show ?thesis
      proof (cases "is_az c")
        case False
        then have m: "match_word prev ?s = None" by (simp add: match_word_eq)
        have "c \<in> set (takeWhile is_word ?s)" using True by simp
        with False have "\<not> list_all is_az (takeWhile is_word ?s)"
          by (rule no_az_not_all)
        with 2 m True pw pf show ?thesis by simp
      next
        case az: True
        then have run: "?run \<noteq> []" by simp
        have split: "?s = ?run @ ?rest" by simp
        have runw: "\<forall>x \<in> set ?run. is_word x"
          by (auto dest: set_takeWhileD simp: az_word)
        have runaz: "list_all is_az ?run"
          by (auto simp: list_all_iff dest: set_takeWhileD)
        show ?thesis
        proof (cases "open_end ?rest")
          case oe: True
          with pf True run have m: "match_word prev ?s = Some ?run"
            by (simp add: match_word_eq head_def)
          from open_end_while [OF oe]
          have dw: "dropWhile is_word ?rest = ?rest" and tw: "takeWhile is_word ?rest = []"
            by blast+
          from run have "last ?run \<in> set ?run" by (rule last_in_set)
          with runw have lw: "prev_word (Some (last ?run))" by (simp add: prev_word_def)
          have dr: "drop (length ?run) ?s = ?rest"
            by (rule dropWhile_eq_drop [symmetric])
          from 2(2) [OF m] lw dr dw
          have ih: "findall_words (Some (last ?run)) ?rest = filter (list_all is_az) (runs is_word ?rest)"
            by simp
          have t: "takeWhile is_word ?s = ?run"
            using takeWhile_append2 [of ?run is_word ?rest] runw tw split by simp
          have "dropWhile is_word ?s = ?rest"
            using dropWhile_append2 [of ?run is_word ?rest] runw dw split by simp
          with True have d: "dropWhile is_word cs = ?rest" by simp
          have "runs is_word ?s = ?run # runs is_word ?rest"
            using True t d by (simp del: takeWhile.simps dropWhile.simps)
          with m ih dr runaz pf show ?thesis
            by (simp del: takeWhile.simps dropWhile.simps)
        next
          case oe: False
          then have m: "match_word prev ?s = None" by (simp add: match_word_eq)
          from closed_end_head [OF oe] obtain d rest' where r: "?rest = d # rest'" and dw: "is_word d"
            by blast
          from r have "\<not> is_az d"
            using hd_dropWhile [of is_az ?s] by (metis list.sel(1) list.distinct(1))
          have "takeWhile is_word ?s = ?run @ takeWhile is_word ?rest"
            using takeWhile_append2 [of ?run is_word ?rest] runw split by simp
          with r dw have "d \<in> set (takeWhile is_word ?s)" by simp
          with \<open>\<not> is_az d\<close> have "\<not> list_all is_az (takeWhile is_word ?s)"
            by (rule no_az_not_all)
          with 2(1) [OF m] True pw pf m show ?thesis by simp
        qed
      qed
    qed
  qed
qed

lemma findall_words_tokens: "findall_words None (map lower t) = tokens t"
  by (simp add: findall_words_runs tokens_def prev_word_def)

lemma pos_sum_mset: "pos_sum t = sum_mset (image_mset positive_weight (mset (tokens t)))"
proof -
  have "pos_sum t = sum_list (map positive_weight (tokens t))"
    by (simp add: pos_sum_def findall_words_tokens)
  also have "\<dots> = sum_mset (mset (map positive_weight (tokens t)))"
    by (simp only: sum_mset_sum_list)
  finally show ?thesis by simp
qed

lemma neg_sum_mset: "neg_sum t = sum_mset (image_mset negative_weight (mset (tokens t)))"
proof -
  have "neg_sum t = sum_list (map negative_weight (tokens t))"
    by (simp add: neg_sum_def findall_words_tokens)
  also have "\<dots> = sum_mset (mset (map negative_weight (tokens t)))"
    by (simp only: sum_mset_sum_list)
  finally show ?thesis by simp
qed

lemma same_tokens_same_score:
  "mset (tokens t1) = mset (tokens t2) \<Longrightarrow> analyze_sentiment t1 = analyze_sentiment t2"
  by (simp add: analyze_sentiment_sums pos_sum_mset neg_sum_mset)

subsection \<open>Concrete texts\<close>

lemma sentiment_great_upper: "analyze_sentiment ''GREAT!'' = 1"
  by code_simp

lemma sentiment_great: "analyze_sentiment ''great'' = 1"
  by code_simp

lemma sentiment_great1: "analyze_sentiment ''great1'' = 0"
  by code_simp

lemma words_great1: "findall_words None (map lower ''great1'') = []"
  by code_simp

lemma runs_great1: "alphabetic_runs ''great1'' = [''great'']"
  by code_simp

lemma runs_great: "alphabetic_runs ''great'' = [''great'']"
  by code_simp

lemma tokens_love_risk: "tokens ''LOVE, risk!'' = [''love'', ''risk'']"
  by code_simp

lemma tokens_risk_love: "tokens ''risk love'' = [''risk'', ''love'']"
  by code_simp

lemma lower_mixed: "map lower ''Great'' = ''great'' \<and> map lower ''gREAT'' = ''great''"
  by code_simp




section \<open>Properties of the price parser\<close>

text \<open>
  C4. \<open>_parse_price_points\<close> returns a quadruple only if each of the four labels stands
  somewhere in the text with a number that parses, and the quadruple holds these four
  numbers. If one of the four patterns matches nowhere, or the number of its leftmost
  match does not parse, the result is the no-data value \<open>None\<close>; the text
  \<^verbatim>\<open>BARGAIN: $80\<close> is such a text. A response that yields no data is left out by
  \<open>calculate_van_westendorp\<close>: the outcome is the one of the list without it, and it is a
  result, not an error.
\<close>

theorem parse_price_points_all_four_or_none:
  "(parse_price_points text = Some q \<longrightarrow>
      (\<exists>t i1 i2 i3 i4. text = Some t
         \<and> label_at pat_too_expensive t i1 (too_expensive q)
         \<and> label_at pat_expensive t i2 (expensive q)
         \<and> label_at pat_bargain t i3 (bargain q)
         \<and> label_at pat_too_cheap t i4 (too_cheap q)))
   \<and> (pat \<in> set patterns \<and> label_missing pat t \<longrightarrow> parse_price_points (Some t) = None)
   \<and> (pat' \<in> set patterns \<and> re_search pat' t' = Some (i, g)
        \<and> py_float (remove_commas g) = Inl ValueError \<longrightarrow> parse_price_points (Some t') = None)
   \<and> parse_price_points (Some ''BARGAIN: $80'') = None
   \<and> (parse_price_points (get r ''response'' (Some [])) = None \<longrightarrow>
        calculate_van_westendorp (rs1 @ r # rs2) = calculate_van_westendorp (rs1 @ rs2)
        \<and> (\<exists>res. calculate_van_westendorp (rs1 @ r # rs2) = Inr res))"
proof (intro conjI impI)
  assume "parse_price_points text = Some q"
  then obtain t where t: "text = Some t"
    and f: "price_of pat_too_expensive t = Some (too_expensive q)"
      "price_of pat_expensive t = Some (expensive q)"
      "price_of pat_bargain t = Some (bargain q)"
      "price_of pat_too_cheap t = Some (too_cheap q)"
    using parse_Some_fields by blast
  obtain i1 where l1: "label_at pat_too_expensive t i1 (too_expensive q)"
    using price_of_Some [OF f(1)] ..
  obtain i2 where l2: "label_at pat_expensive t i2 (expensive q)"
    using price_of_Some [OF f(2)] ..
  obtain i3 where l3: "label_at pat_bargain t i3 (bargain q)"
    using price_of_Some [OF f(3)] ..
  obtain i4 where l4: "label_at pat_too_cheap t i4 (too_cheap q)"
    using price_of_Some [OF f(4)] ..
  from t l1 l2 l3 l4 show "\<exists>t i1 i2 i3 i4. text = Some t
         \<and> label_at pat_too_expensive t i1 (too_expensive q)
         \<and> label_at pat_expensive t i2 (expensive q)
         \<and> label_at pat_bargain t i3 (bargain q)
         \<and> label_at pat_too_cheap t i4 (too_cheap q)"
    by blast
next
  assume "pat \<in> set patterns \<and> label_missing pat t"
  then show "parse_price_points (Some t) = None"
    using label_missing_price_of price_of_None_parse by blast
next
  assume a: "pat' \<in> set patterns \<and> re_search pat' t' = Some (i, g)
        \<and> py_float (remove_commas g) = Inl ValueError"
  then have "price_of pat' t' = None"
    by (simp add: price_of_def)
  with a show "parse_price_points (Some t') = None"
    using price_of_None_parse by blast
next
  show "parse_price_points (Some ''BARGAIN: $80'') = None"
    by (rule parse_bargain_only)
next
  assume "parse_price_points (get r ''response'' (Some [])) = None"
  then have "priced r = None"
    by (rule parse_None_priced)
  then show "calculate_van_westendorp (rs1 @ r # rs2) = calculate_van_westendorp (rs1 @ rs2)"
    by (rule van_westendorp_skip)
next
  show "\<exists>res. calculate_van_westendorp (rs1 @ r # rs2) = Inr res"
    by (rule calculate_van_westendorp_ok)
qed

theorem parse_price_points_all_four_or_none_witness:
  "parse_price_points (Some ''TOO_EXPENSIVE: 120 EXPENSIVE: 90 BARGAIN: 60 TOO_CHEAP: 40'') =
     Some \<lparr>too_expensive = 120, expensive = 90, bargain = 60, too_cheap = 40\<rparr>
   \<and> (\<exists>i1 i2 i3 i4.
         label_at pat_too_expensive ''TOO_EXPENSIVE: 120 EXPENSIVE: 90 BARGAIN: 60 TOO_CHEAP: 40'' i1 120
       \<and> label_at pat_expensive ''TOO_EXPENSIVE: 120 EXPENSIVE: 90 BARGAIN: 60 TOO_CHEAP: 40'' i2 90
       \<and> label_at pat_bargain ''TOO_EXPENSIVE: 120 EXPENSIVE: 90 BARGAIN: 60 TOO_CHEAP: 40'' i3 60
       \<and> label_at pat_too_cheap ''TOO_EXPENSIVE: 120 EXPENSIVE: 90 BARGAIN: 60 TOO_CHEAP: 40'' i4 40)
   \<and> pat_too_cheap \<in> set patterns
   \<and> label_missing pat_too_cheap ''BARGAIN: $80''
   \<and> parse_price_points (Some ''BARGAIN: $80'') = None
   \<and> pat_too_expensive \<in> set patterns
   \<and> re_search pat_too_expensive ''TOO_EXPENSIVE: ,,'' = Some (0, '',,'')
   \<and> py_float (remove_commas '',,'') = Inl ValueError
   \<and> parse_price_points (Some ''TOO_EXPENSIVE: ,,'') = None
   \<and> parse_price_points (get bargain_only ''response'' (Some [])) = None
   \<and> calculate_van_westendorp ([respondent_1] @ bargain_only # [respondent_2]) =
       calculate_van_westendorp ([respondent_1] @ [respondent_2])
   \<and> (\<exists>res. calculate_van_westendorp ([respondent_1] @ bargain_only # [respondent_2]) = Inr res)"
proof -
  let ?t1 = "''TOO_EXPENSIVE: 120 EXPENSIVE: 90 BARGAIN: 60 TOO_CHEAP: 40''"
  let ?q1 = "\<lparr>too_expensive = 120, expensive = 90, bargain = 60, too_cheap = 40\<rparr>"
  have h1: "parse_price_points (Some ?t1) = Some ?q1"
    by (rule parse_respondent_1)
  have h2: "pat_too_cheap \<in> set patterns" "pat_too_expensive \<in> set patterns"
    by (simp_all add: patterns_def)
  have h3: "parse_price_points (get bargain_only ''response'' (Some [])) = None"
    by (simp add: bargain_only_def get_def parse_bargain_only)
  note th = parse_price_points_all_four_or_none
      [of "Some ?t1" ?q1 pat_too_cheap "''BARGAIN: $80''" pat_too_expensive
          "''TOO_EXPENSIVE: ,,''" 0 "'',,''" bargain_only "[respondent_1]" "[respondent_2]"]
  from th h1 have c1: "\<exists>i1 i2 i3 i4.
         label_at pat_too_expensive ?t1 i1 120 \<and> label_at pat_expensive ?t1 i2 90
       \<and> label_at pat_bargain ?t1 i3 60 \<and> label_at pat_too_cheap ?t1 i4 40"
    by auto
  from th h2 commas_only_found commas_only_float
  have c3: "parse_price_points (Some ''TOO_EXPENSIVE: ,,'') = None"
    by blast
  from th h3 have c5:
    "calculate_van_westendorp ([respondent_1] @ bargain_only # [respondent_2]) =
       calculate_van_westendorp ([respondent_1] @ [respondent_2])"
    "\<exists>res. calculate_van_westendorp ([respondent_1] @ bargain_only # [respondent_2]) = Inr res"
    by blast+
  from h1 c1 h2 too_cheap_missing parse_bargain_only commas_only_found commas_only_float c3 h3 c5
  show ?thesis
    by blast
qed




section \<open>Properties of the intersection engine\<close>

text \<open>
  C6. When fewer than two results yield a valid quadruple (the list may be empty, or all
  of its results failed or do not parse), \<open>calculate_van_westendorp\<close> returns the empty
  shape and no error: the four points are null, both ends of the range are null, and the
  cumulative table and the per-archetype map are empty.
\<close>

theorem too_few_quadruples_empty_shape:
  "length (valid_prices results) < 2 \<Longrightarrow>
     calculate_van_westendorp results =
       Inr \<lparr>optimal_price_point = None,
            indifference_price_point = None,
            point_of_marginal_cheapness = None,
            point_of_marginal_expensiveness = None,
            acceptable_price_range = \<lparr>low = None, high = None\<rparr>,
            cumulative_data = [],
            by_archetype = []\<rparr>"
proof -
  assume few: "length (valid_prices results) < 2"
  obtain ap ba where c: "collect_prices results ([], []) = (ap, ba)"
    by (cases "collect_prices results ([], [])")
  have "ap = valid_prices results"
    using fst_collect_prices [of results "[]" "[]"] c by simp
  with few c show ?thesis
    by (simp add: calculate_van_westendorp_def empty_result_def)
qed

theorem too_few_quadruples_empty_shape_witness:
  "length (valid_prices [bargain_only, failed_task, respondent_1]) < 2
   \<and> calculate_van_westendorp [bargain_only, failed_task, respondent_1] =
       Inr \<lparr>optimal_price_point = None,
            indifference_price_point = None,
            point_of_marginal_cheapness = None,
            point_of_marginal_expensiveness = None,
            acceptable_price_range = \<lparr>low = None, high = None\<rparr>,
            cumulative_data = [],
            by_archetype = []\<rparr>
   \<and> calculate_van_westendorp [] = calculate_van_westendorp [bargain_only, failed_task, respondent_1]"
proof -
  have h: "length (valid_prices [bargain_only, failed_task, respondent_1]) < 2"
    by (simp add: valid_prices_example)
  have e: "length (valid_prices []) < 2"
    by (simp add: valid_prices_def List.map_filter_simps)
  from too_few_quadruples_empty_shape [OF h] too_few_quadruples_empty_shape [OF e] h
  show ?thesis by simp
qed

text \<open>
  C10. \<open>calculate_van_westendorp\<close> returns a result for every list of result dicts,
  whichever of the keys response, error and archetype_name an entry lacks and also when
  its response is null; the result is a dict with the seven keys optimal_price_point,
  indifference_price_point, point_of_marginal_cheapness, point_of_marginal_expensiveness,
  acceptable_price_range, cumulative_data and by_archetype, the fields of \<open>vw_result\<close>.
  No error is raised; in particular \<open>_calculate_intersections\<close> returns for every list
  with at least one quadruple, where the respondent count it divides by is not zero.
\<close>

theorem calculate_van_westendorp_total:
  "(\<exists>r. calculate_van_westendorp results = Inr r)
   \<and> (\<exists>i. calculate_intersections (q # qs) = Inr i)"
  using calculate_van_westendorp_ok [of results] calculate_intersections_ok [of "q # qs"]
  by simp

section \<open>Properties of the persona task and the aggregator\<close>



text \<open>
  C8, as stated, fails: the metrics hold \<open>elapsed_seconds\<close>, the rounded difference of
  two readings of the clock, so two runs of the aggregation phase over the same list of
  results give different metrics when the runs take different times.
\<close>

theorem metrics_differ_with_clock_counterexample:
  "compute_metrics [example_persona, example_persona] [example_success, example_failure] 0 (5 / 2)
     \<noteq> compute_metrics [example_persona, example_persona] [example_success, example_failure] 0 3"
  by (simp add: compute_metrics_def py_round_def round_half_even_def Let_def mean3_def py_div_def
        split: sum.splits)

text \<open>
  C8, amended. Two runs of the aggregation phase over the same list of completed
  results, and hence over equally many personas, both produce metrics, and these agree in
  total_personas, successful_responses, failed_responses, avg_sentiment,
  archetype_sentiments and total_tokens. The remaining metric, elapsed_seconds, is in
  each run the duration of that run on the clock, rounded to two decimals.
\<close>

theorem metrics_determined_except_elapsed:
  "length personas = length personas' \<Longrightarrow>
     \<exists>m m'. compute_metrics personas results start_time end_time = Inr m
       \<and> compute_metrics personas' results start_time' end_time' = Inr m'
       \<and> total_personas m = total_personas m'
       \<and> successful_responses m = successful_responses m'
       \<and> failed_responses m = failed_responses m'
       \<and> avg_sentiment m = avg_sentiment m'
       \<and> archetype_sentiments m = archetype_sentiments m'
       \<and> total_tokens m = total_tokens m'
       \<and> elapsed_seconds m = py_round (end_time - start_time) 2
       \<and> elapsed_seconds m' = py_round (end_time' - start_time') 2"
proof -
  assume len: "length personas = length personas'"
  let ?succ = "filter (\<lambda>r. error r = None) results"
  let ?avg = "if map sentiment ?succ \<noteq> [] then mean3 (map sentiment ?succ) else Inr 0"
  obtain avg arch where m: "compute_metrics personas results start_time end_time =
     Inr \<lparr>total_personas = length personas,
          successful_responses = length ?succ,
          failed_responses = length (filter (\<lambda>r. error r \<noteq> None) results),
          avg_sentiment = avg,
          archetype_sentiments = arch,
          total_tokens = add_tokens results \<lparr>input_tokens = 0, output_tokens = 0\<rparr>,
          elapsed_seconds = py_round (end_time - start_time) 2\<rparr>"
    and a: "?avg = Inr avg"
    and g: "archetype_means (group_sentiments ?succ []) = Inr arch"
    using compute_metrics_shape [of personas results start_time end_time] by blast
  obtain avg' arch' where m': "compute_metrics personas' results start_time' end_time' =
     Inr \<lparr>total_personas = length personas',
          successful_responses = length ?succ,
          failed_responses = length (filter (\<lambda>r. error r \<noteq> None) results),
          avg_sentiment = avg',
          archetype_sentiments = arch',
          total_tokens = add_tokens results \<lparr>input_tokens = 0, output_tokens = 0\<rparr>,
          elapsed_seconds = py_round (end_time' - start_time') 2\<rparr>"
    and a': "?avg = Inr avg'"
    and g': "archetype_means (group_sentiments ?succ []) = Inr arch'"
    using compute_metrics_shape [of personas' results start_time' end_time'] by blast
  from a a' have "avg = avg'" by simp
  moreover from g g' have "arch = arch'" by simp
  ultimately show ?thesis
    using m m' len by simp
qed

theorem metrics_determined_except_elapsed_witness:
  "length [example_persona, example_persona] = length [example_persona, example_persona]
   \<and> (\<exists>m'. compute_metrics [example_persona, example_persona] [example_success, example_failure]
              0 3 = Inr m'
          \<and> total_personas m' = 2
          \<and> successful_responses m' = 1
          \<and> failed_responses m' = 1
          \<and> avg_sentiment m' = 33 / 100
          \<and> archetype_sentiments m' = [(''Seed VC Partner'', 33 / 100)]
          \<and> total_tokens m' = \<lparr>input_tokens = 120, output_tokens = 7\<rparr>
          \<and> elapsed_seconds m' = py_round (3 - 0) 2)"
proof -
  have h: "length [example_persona, example_persona] = length [example_persona, example_persona]"
    by simp
  from metrics_determined_except_elapsed
    [OF h, of "[example_success, example_failure]" 0 "5 / 2" 0 3]
  show ?thesis
    unfolding metrics_example by auto
qed

section \<open>Properties of the sentiment scorer\<close>



text \<open>
  C3, as stated, fails. The pattern \<^verbatim>\<open>\b[a-z]+\b\<close> asks for a word boundary on both
  sides of a run of letters, and a digit or an underscore is a word character: in
  \<^verbatim>\<open>great1\<close> the run \<^verbatim>\<open>great\<close> is followed by no boundary and is not found. The text has
  the same maximal alphabetic runs as \<^verbatim>\<open>great\<close> and another score.
\<close>

theorem digit_joins_word_counterexample:
  "alphabetic_runs ''great1'' = [''great'']
   \<and> alphabetic_runs ''great'' = [''great'']
   \<and> findall_words None (map lower ''great1'') = []
   \<and> analyze_sentiment ''great1'' = 0
   \<and> analyze_sentiment ''great'' = 1"
  using runs_great1 runs_great words_great1 sentiment_great1 sentiment_great
  by (intro conjI)

text \<open>
  C3, amended. \<open>analyze_sentiment\<close> puts the text in lower case and takes as its words
  the maximal runs of word characters (letters, digits and the underscore) that consist
  of the letters a to z only; a run of letters that touches a digit, an underscore or a
  letter outside a to z is no word. The score depends only on the multiset of these
  words. It does not depend on the case of the letters, nor on the characters between
  the words as long as they are no word characters: \<^verbatim>\<open>GREAT!\<close> and \<^verbatim>\<open>great\<close> have the
  same score.
\<close>

theorem sentiment_depends_on_tokens:
  "findall_words None (map lower t) = tokens t
   \<and> (mset (tokens t1) = mset (tokens t2) \<longrightarrow> analyze_sentiment t1 = analyze_sentiment t2)
   \<and> (map lower t3 = map lower t4 \<longrightarrow> analyze_sentiment t3 = analyze_sentiment t4)
   \<and> analyze_sentiment ''GREAT!'' = analyze_sentiment ''great''"
proof (intro conjI impI)
  show "findall_words None (map lower t) = tokens t"
    by (rule findall_words_tokens)
next
  assume "mset (tokens t1) = mset (tokens t2)"
  then show "analyze_sentiment t1 = analyze_sentiment t2"
    by (rule same_tokens_same_score)
next
  assume "map lower t3 = map lower t4"
  then have "tokens t3 = tokens t4" by (simp add: tokens_def)
  then have "mset (tokens t3) = mset (tokens t4)" by simp
  then show "analyze_sentiment t3 = analyze_sentiment t4"
    by (rule same_tokens_same_score)
next
  show "analyze_sentiment ''GREAT!'' = analyze_sentiment ''great''"
    by (simp only: sentiment_great_upper sentiment_great)
qed

theorem sentiment_depends_on_tokens_witness:
  "tokens ''LOVE, risk!'' = [''love'', ''risk'']
   \<and> tokens ''risk love'' = [''risk'', ''love'']
   \<and> mset (tokens ''LOVE, risk!'') = mset (tokens ''risk love'')
   \<and> analyze_sentiment ''LOVE, risk!'' = analyze_sentiment ''risk love''
   \<and> map lower ''Great'' = map lower ''gREAT''
   \<and> analyze_sentiment ''Great'' = analyze_sentiment ''gREAT''"
proof -
  have m: "mset (tokens ''LOVE, risk!'') = mset (tokens ''risk love'')"
    by (simp only: tokens_love_risk tokens_risk_love) simp
  have e: "map lower ''Great'' = map lower ''gREAT''"
    by (simp only: lower_mixed)
  note th = sentiment_depends_on_tokens
      [of "''risk love''" "''LOVE, risk!''" "''risk love''" "''Great''" "''gREAT''"]
  from th m have a: "analyze_sentiment ''LOVE, risk!'' = analyze_sentiment ''risk love''"
    by blast
  from th e have b: "analyze_sentiment ''Great'' = analyze_sentiment ''gREAT''"
    by blast
  from tokens_love_risk tokens_risk_love m a e b show ?thesis by (intro conjI)
qed

section \<open>The cumulative table is monotone\<close>

text \<open>
  C9. For every list of at least two quadruples, \<open>_calculate_intersections\<close> returns a
  result whose cumulative table is the list of the rows of fractions at the prices of
  the axis, each fraction rounded to four decimals. Along the table the price rises
  strictly, the fractions too_cheap and bargain never rise and the fractions expensive
  and too_expensive never fall, and every fraction lies between 0 and 1; this holds for
  the rows before they are rounded and for the rounded rows of the table.
\<close>

theorem cumulative_table_monotone:
  "2 \<le> length price_data \<Longrightarrow>
     \<exists>r raw. calculate_intersections price_data = Inr r
       \<and> list_all2 (\<lambda>p c. fractions_at price_data (length price_data) p = Inr c)
            (price_axis price_data) raw
       \<and> cumulative_data r = map round_point raw
       \<and> monotone_table raw
       \<and> monotone_table (cumulative_data r)"
proof -
  assume "2 \<le> length price_data"
  then have "price_data \<noteq> []" by auto
  then obtain r cs where r: "calculate_intersections price_data = Inr r"
    and b: "build_cumulative price_data (length price_data) (price_axis price_data) = Inr cs"
    and c: "cumulative_data r = cs"
    using calculate_intersections_cumulative by blast
  from build_cumulative_rows [OF b] obtain raw where
    rel: "list_all2 (\<lambda>p c. fractions_at price_data (length price_data) p = Inr c)
            (price_axis price_data) raw"
    and cs: "cs = map round_point raw" by blast
  from rows_monotone [OF rel price_axis_strict]
  have "monotone_table raw" "monotone_table (map round_point raw)" by simp_all
  with r rel c cs show ?thesis by auto
qed

theorem cumulative_table_monotone_witness:
  "2 \<le> length [\<lparr>too_expensive = 120, expensive = 90, bargain = 60, too_cheap = 40\<rparr>,
                \<lparr>too_expensive = 130, expensive = 100, bargain = 70, too_cheap = 50\<rparr>]
   \<and> monotone_table
        [\<lparr>price = 40, cum_too_cheap = 1, cum_bargain = 1, cum_expensive = 0, cum_too_expensive = 0\<rparr>,
         \<lparr>price = 50, cum_too_cheap = 1 / 2, cum_bargain = 1, cum_expensive = 0, cum_too_expensive = 0\<rparr>,
         \<lparr>price = 60, cum_too_cheap = 0, cum_bargain = 1, cum_expensive = 0, cum_too_expensive = 0\<rparr>,
         \<lparr>price = 70, cum_too_cheap = 0, cum_bargain = 1 / 2, cum_expensive = 0, cum_too_expensive = 0\<rparr>,
         \<lparr>price = 90, cum_too_cheap = 0, cum_bargain = 0, cum_expensive = 1 / 2, cum_too_expensive = 0\<rparr>,
         \<lparr>price = 100, cum_too_cheap = 0, cum_bargain = 0, cum_expensive = 1, cum_too_expensive = 0\<rparr>,
         \<lparr>price = 120, cum_too_cheap = 0, cum_bargain = 0, cum_expensive = 1, cum_too_expensive = 1 / 2\<rparr>,
         \<lparr>price = 130, cum_too_cheap = 0, cum_bargain = 0, cum_expensive = 1, cum_too_expensive = 1\<rparr>]"
proof -
  let ?pd = "[\<lparr>too_expensive = 120, expensive = 90, bargain = 60, too_cheap = 40\<rparr>,
              \<lparr>too_expensive = 130, expensive = 100, bargain = 70, too_cheap = 50\<rparr>]"
  have h: "2 \<le> length ?pd" by simp
  from cumulative_table_monotone [OF h] obtain r where
    r: "calculate_intersections ?pd = Inr r" and m: "monotone_table (cumulative_data r)"
    by blast
  from r have "cumulative_data r =
        [\<lparr>price = 40, cum_too_cheap = 1, cum_bargain = 1, cum_expensive = 0, cum_too_expensive = 0\<rparr>,
         \<lparr>price = 50, cum_too_cheap = 1 / 2, cum_bargain = 1, cum_expensive = 0, cum_too_expensive = 0\<rparr>,
         \<lparr>price = 60, cum_too_cheap = 0, cum_bargain = 1, cum_expensive = 0, cum_too_expensive = 0\<rparr>,
         \<lparr>price = 70, cum_too_cheap = 0, cum_bargain = 1 / 2, cum_expensive = 0, cum_too_expensive = 0\<rparr>,
         \<lparr>price = 90, cum_too_cheap = 0, cum_bargain = 0, cum_expensive = 1 / 2, cum_too_expensive = 0\<rparr>,
         \<lparr>price = 100, cum_too_cheap = 0, cum_bargain = 0, cum_expensive = 1, cum_too_expensive = 0\<rparr>,
         \<lparr>price = 120, cum_too_cheap = 0, cum_bargain = 0, cum_expensive = 1, cum_too_expensive = 1 / 2\<rparr>,
         \<lparr>price = 130, cum_too_cheap = 0, cum_bargain = 0, cum_expensive = 1, cum_too_expensive = 1\<rparr>]"
    unfolding intersections_two_respondents by auto
  with m h show ?thesis by simp
qed

end
